theory Spec2Isabelle
  imports
    Main
    "HOL-Library.Word"
    "HOL-Library.Signed_Division"
    "HOL-Library.Char_ord"
    "HOL-Library.List_Lexorder"
    "HOL-Library.Product_Lexorder"
    "HOL-Library.Multiset"
begin

section \<open>Data model\<close>

text \<open>
  The layout engine of the compose parser (\<^verbatim>\<open>ParseToReactFlow\<close> and the helpers it
  calls) turns a decoded project into positioned nodes and edges. The records below follow
  the Go structs of \<^verbatim>\<open>compose_paresr_models.go\<close>; fields the layout never reads
  (build, deploy, logging, labels, timestamps of the input, ...) are left out.

  Conventions of the embedding:
  \<^item> Go's \<^verbatim>\<open>int\<close> is the 64-bit signed integer. Its values are integers \<open>x\<close> with
    \<open>int64 x\<close>, and its sums, differences and products wrap around: \<open>add64\<close>,
    \<open>sub64\<close>, \<open>mul64\<close>. Go's \<^verbatim>\<open>/\<close> on integers truncates towards zero: it is
    \<open>sdiv\<close>; the layout divides by \<open>2\<close> and by positive counts only.
  \<^item> A position coordinate is a \<^verbatim>\<open>float64\<close> that the code fills with
    \<^verbatim>\<open>float64(n)\<close> of an \<^verbatim>\<open>int\<close>. Such a float is an integer, and the model keeps
    that integer: \<open>float64 n\<close> is \<open>n\<close> rounded to 53 significant bits, to nearest
    and to even on a tie. \<open>intOfFloat\<close> is the conversion back, \<^verbatim>\<open>int(x)\<close>.
  \<^item> A counter that a loop increments once for each element it appends or visits
    (an edge counter, a loop index) stays below the length of a slice; it is a plain
    integer.
  \<^item> A float literal of the source (an opacity, the zoom) is kept as an exact decimal
    \<open>JDec m d\<close>, meaning \<open>m / 10^d\<close>.
  \<^item> A \<^verbatim>\<open>map[string]interface{}\<close> bag of properties is an association list in
    the order of the source literal.
  \<^item> The three name-indexed maps of the project are lists of their entries, with
    distinct keys. The layout only ever enumerates these maps and takes their length.
    Go leaves the order of an enumeration unspecified and chooses it anew at every
    \<^verbatim>\<open>range\<close>: the order of each of the seven enumerations of one layout call is a
    field of the record \<open>Runtime\<close>, and so is the arrangement that the standard
    library's sort gives to a long slice.
  \<^item> Pointers to configs are the configs themselves: a project holds no nil entry.
  \<^item> Field names that several Go structs share carry a prefix here
    (\<open>mountType\<close>, \<open>svcOrder\<close>, \<open>nodeID\<close>, \<open>edgeID\<close>, ...).
\<close>

datatype jvalue =
    JInt int
  | JStr string
  | JBool bool
  | JStrs "string list"
  | JDec int nat

type_synonym bag = "(string \<times> jvalue) list"

record PortMapping =
  portTarget :: "16 word"
  portPublished :: "16 word"
  portProtocol :: string
  portMode :: string

record VolumeMount =
  mountType :: string
  mountSource :: string
  mountTarget :: string
  mountReadOnly :: bool

record ComposeServiceConfig =
  svcImage :: string
  svcOrder :: int
  svcDependsOn :: "string list"
  svcPorts :: "PortMapping list"
  svcNetworks :: "string list"
  svcVolumes :: "VolumeMount list"

record NetworkConfig =
  netDriver :: string
  netExternal :: bool
  netAttachable :: bool
  netInternal :: bool

record VolumeConfig =
  volDriver :: string
  volExternal :: bool
  volOrder :: int

record ComposeProjectConfig =
  Version :: string
  Services :: "(string \<times> ComposeServiceConfig) list"
  ServiceOrder :: "string list"
  VolumeOrder :: "string list"
  Networks :: "(string \<times> NetworkConfig) list"
  Volumes :: "(string \<times> VolumeConfig) list"
  Name :: string

record ReactFlowPosition =
  posX :: int
  posY :: int

record ReactFlowNodeData =
  Label :: string
  dataType :: string
  Service :: "ComposeServiceConfig option"
  Network :: "NetworkConfig option"
  Volume :: "VolumeConfig option"
  Status :: string
  Properties :: bag

record ReactFlowNode =
  nodeID :: string
  nodeType :: string
  Position :: ReactFlowPosition
  Data :: ReactFlowNodeData
  Width :: int
  Height :: int
  nodeStyle :: bag

record ReactFlowEdge =
  edgeID :: string
  Source :: string
  SourceHandle :: string
  Target :: string
  TargetHandle :: string
  edgeType :: string
  Animated :: bool
  edgeStyle :: bag
  edgeLabel :: string
  LabelStyle :: bag

record ReactFlowViewport =
  viewX :: int
  viewY :: int
  Zoom :: jvalue

record ReactFlowGraph =
  Nodes :: "ReactFlowNode list"
  Edges :: "ReactFlowEdge list"
  Project :: string
  Layout :: string
  graphDirection :: string
  Viewport :: ReactFlowViewport
  CreatedAt :: nat

record GraphLayoutOptions =
  Direction :: string
  NodeWidth :: int
  NodeHeight :: int
  NodeGapX :: int
  NodeGapY :: int
  Padding :: int
  ColumnGap :: int
  ColumnTopGap :: int
  DockerComposeStart :: int
  VolumeXOffset :: int
  VolumeYOffset :: int
  LastY :: int

record networkWithName =
  nwName :: string
  network :: NetworkConfig

record volumeWithOrder =
  vwName :: string
  vwOrder :: int
  volume :: VolumeConfig

record positionedVolume =
  pvName :: string
  pvVolume :: VolumeConfig
  targetY :: int
  serviceX :: int
  usedBy :: "string list"

record serviceWithOrder =
  swName :: string
  swOrder :: int
  service :: ComposeServiceConfig

record GraphDimensions =
  ServiceCount :: int
  VolumeCount :: int
  NetworkCount :: int
  DockerComposeX :: int
  DockerComposeY :: int
  ServiceHeight :: int
  NetworkHeight :: int
  ServiceBaseY :: int
  NetworkStartY :: int
  ServiceStartX :: int
  ServiceStartY :: int
  dimVolumeYOffset :: int
  UnusedVolumeStartY :: int

section \<open>Library routines the layout calls\<close>

text \<open>
  \<^verbatim>\<open>fmt.Sprintf("%d", n)\<close>: the decimal digits of an integer, with a minus sign when
  it is negative.
\<close>

function digits :: "nat \<Rightarrow> string" where
  "digits n =
     (if n < 10 then [char_of (48 + n)]
      else digits (n div 10) @ [char_of (48 + n mod 10)])"
  by pat_completeness auto
termination
  by (relation "measure id") auto

declare digits.simps [simp del]

definition showInt :: "int \<Rightarrow> string" where
  "showInt i = (if i < 0 then CHR ''-'' # digits (nat (- i)) else digits (nat i))"

text \<open>
  Machine integers. \<open>wrap64\<close> brings an integer into the range of \<^verbatim>\<open>int\<close> the way
  two's complement arithmetic does.
\<close>

definition int64 :: "int \<Rightarrow> bool" where
  "int64 x \<longleftrightarrow> - (2 ^ 63) \<le> x \<and> x < 2 ^ 63"

definition wrap64 :: "int \<Rightarrow> int" where
  "wrap64 x = (x + 2 ^ 63) mod 2 ^ 64 - 2 ^ 63"

definition add64 :: "int \<Rightarrow> int \<Rightarrow> int" where
  "add64 a b = wrap64 (a + b)"

definition sub64 :: "int \<Rightarrow> int \<Rightarrow> int" where
  "sub64 a b = wrap64 (a - b)"

definition mul64 :: "int \<Rightarrow> int \<Rightarrow> int" where
  "mul64 a b = wrap64 (a * b)"

text \<open>
  Floats that hold integers. \<open>bitLength n\<close> is the number of binary digits of \<open>n\<close>.
  \<open>float64 x\<close> is the value of the \<^verbatim>\<open>float64\<close> nearest to the integer \<open>x\<close>: \<open>x\<close>
  itself up to \<open>2^53\<close> in magnitude, and beyond that \<open>x\<close> with all but its 53 leading
  bits rounded away, to the nearest and on a tie to the even neighbour. The sum and the
  difference of two such floats are the rounded exact sum and difference. \<^verbatim>\<open>int(x)\<close>
  of a float outside the range of \<^verbatim>\<open>int\<close> (only \<open>2^63\<close> can occur) depends on the
  processor; \<open>intOfFloat\<close> gives the smallest integer there, as amd64 does.
\<close>

function bitLength :: "int \<Rightarrow> nat" where
  "bitLength n = (if n \<le> 0 then 0 else Suc (bitLength (n div 2)))"
  by pat_completeness auto
termination
  by (relation "measure nat") auto

declare bitLength.simps [simp del]

definition float64 :: "int \<Rightarrow> int" where
  "float64 x =
     (if \<bar>x\<bar> \<le> 2 ^ 53 then x
      else (let shift = bitLength \<bar>x\<bar> - 53;
                kept = \<bar>x\<bar> div 2 ^ shift;
                dropped = \<bar>x\<bar> mod 2 ^ shift;
                half = 2 ^ (shift - 1);
                rounded = (if dropped > half \<or> (dropped = half \<and> odd kept)
                           then kept + 1 else kept)
            in sgn x * (rounded * 2 ^ shift)))"

definition floatAdd :: "int \<Rightarrow> int \<Rightarrow> int" where
  "floatAdd a b = float64 (a + b)"

definition floatSub :: "int \<Rightarrow> int \<Rightarrow> int" where
  "floatSub a b = float64 (a - b)"

definition intOfFloat :: "int \<Rightarrow> int" where
  "intOfFloat x = (if int64 x then x else - (2 ^ 63))"

text \<open>
  \<^verbatim>\<open>sort.Slice(xs, less)\<close>. The standard library sorts a slice of at most twelve
  elements by insertion: for \<open>i = 1, 2, ...\<close> the element at \<open>i\<close> is swapped leftwards
  while \<open>less\<close> puts it before its left neighbour. \<open>insertLeft\<close> is that inner loop on
  the already sorted prefix, held in reverse (its head is the left neighbour), and
  \<open>insertionSort\<close> is the outer loop.

  A longer slice goes through the library's pattern-defeating quicksort, which is not
  part of this repository. It sees the slice through \<^verbatim>\<open>less(i, j)\<close> and
  \<^verbatim>\<open>swap(i, j)\<close> only, so what it does is a function \<open>longSortFn\<close> of the length and
  of the comparison of the elements by their original indexes, and its result is the
  list of the original indexes in their final arrangement. That function is a
  parameter. \<open>librarySort\<close> is what the properties below use of it: the arrangement is
  a permutation, and when the comparison is a strict weak order (\<open>strictWeak\<close>) no
  element is less than one placed before it.
\<close>

fun insertLeft :: "('a \<Rightarrow> 'a \<Rightarrow> bool) \<Rightarrow> 'a \<Rightarrow> 'a list \<Rightarrow> 'a list" where
  "insertLeft lessFn x [] = [x]"
| "insertLeft lessFn x (p # ps) =
     (if lessFn x p then p # insertLeft lessFn x ps else x # p # ps)"

definition insertionSort :: "('a \<Rightarrow> 'a \<Rightarrow> bool) \<Rightarrow> 'a list \<Rightarrow> 'a list" where
  "insertionSort lessFn xs = rev (foldl (\<lambda>prefix x. insertLeft lessFn x prefix) [] xs)"

type_synonym longSort = "nat \<Rightarrow> (nat \<Rightarrow> nat \<Rightarrow> bool) \<Rightarrow> nat list"

definition sortSlice :: "longSort \<Rightarrow> ('a \<Rightarrow> 'a \<Rightarrow> bool) \<Rightarrow> 'a list \<Rightarrow> 'a list" where
  "sortSlice longSortFn lessFn xs =
     (if length xs \<le> 12 then insertionSort lessFn xs
      else map (\<lambda>i. xs ! i)
             (longSortFn (length xs) (\<lambda>i j. lessFn (xs ! i) (xs ! j))))"

definition strictWeak :: "nat \<Rightarrow> (nat \<Rightarrow> nat \<Rightarrow> bool) \<Rightarrow> bool" where
  "strictWeak n lessFn \<longleftrightarrow>
     (\<forall>i < n. \<forall>j < n. lessFn i j \<longrightarrow> \<not> lessFn j i) \<and>
     (\<forall>i < n. \<forall>j < n. \<forall>k < n. \<not> lessFn i j \<and> \<not> lessFn j k \<longrightarrow> \<not> lessFn i k)"

definition librarySort :: "longSort \<Rightarrow> bool" where
  "librarySort longSortFn \<longleftrightarrow>
     (\<forall>n lessFn.
        mset (longSortFn n lessFn) = mset [0..<n] \<and>
        (strictWeak n lessFn \<longrightarrow> sorted_wrt (\<lambda>i j. \<not> lessFn j i) (longSortFn n lessFn)))"

text \<open>
  What one layout call gets from the runtime: the order of each enumeration of a map
  of the project, named after the function that enumerates, and the library's sort of
  long slices. \<open>runtimeOf\<close> says that a runtime fits a project: every enumeration
  lists the entries of its map, each once, and the sort is a sort.
\<close>

record Runtime =
  rangeNetworkNodes :: "(string \<times> NetworkConfig) list"
  rangeServiceNodes :: "(string \<times> ComposeServiceConfig) list"
  rangeNetworkEdges :: "(string \<times> ComposeServiceConfig) list"
  rangeVolumeUsage :: "(string \<times> ComposeServiceConfig) list"
  rangeVolumeNodes :: "(string \<times> VolumeConfig) list"
  rangeDependsEdges :: "(string \<times> ComposeServiceConfig) list"
  rangeVolumeEdges :: "(string \<times> ComposeServiceConfig) list"
  longSortOf :: longSort

definition runtimeOf :: "Runtime \<Rightarrow> ComposeProjectConfig \<Rightarrow> bool" where
  "runtimeOf rt project \<longleftrightarrow>
     mset (rangeNetworkNodes rt) = mset (Networks project) \<and>
     mset (rangeServiceNodes rt) = mset (Services project) \<and>
     mset (rangeNetworkEdges rt) = mset (Services project) \<and>
     mset (rangeVolumeUsage rt) = mset (Services project) \<and>
     mset (rangeVolumeNodes rt) = mset (Volumes project) \<and>
     mset (rangeDependsEdges rt) = mset (Services project) \<and>
     mset (rangeVolumeEdges rt) = mset (Services project) \<and>
     librarySort (longSortOf rt)"

section \<open>Ordering resolver\<close>

text \<open>
  The comparator closure of \<^verbatim>\<open>getSortedServices\<close> and, verbatim again, of
  \<^verbatim>\<open>getSortedVolumes\<close>. \<open>findIndexes\<close> is its loop over the declared order: every
  match overwrites the index found so far, and the loop stops as soon as both indexes
  are set. \<open>-1\<close> stands for "not found", as in the source.
\<close>

fun findIndexes :: "string \<Rightarrow> string \<Rightarrow> string list \<Rightarrow> int \<Rightarrow> int \<Rightarrow> int \<Rightarrow> int \<times> int" where
  "findIndexes nameI nameJ [] k idxI idxJ = (idxI, idxJ)"
| "findIndexes nameI nameJ (name # rest) k idxI idxJ =
     (let idxI' = (if name = nameI then k else idxI);
          idxJ' = (if name = nameJ then k else idxJ)
      in if idxI' \<noteq> -1 \<and> idxJ' \<noteq> -1 then (idxI', idxJ')
         else findIndexes nameI nameJ rest (k + 1) idxI' idxJ')"

definition lessByOrder :: "string list \<Rightarrow> string \<Rightarrow> int \<Rightarrow> string \<Rightarrow> int \<Rightarrow> bool" where
  "lessByOrder declared nameI orderI nameJ orderJ =
     (if orderI = 0 \<and> orderJ = 0 then
        (case findIndexes nameI nameJ declared 0 (-1) (-1) of
           (idxI, idxJ) \<Rightarrow>
             if idxI \<noteq> -1 \<and> idxJ \<noteq> -1 then idxI < idxJ
             else if idxI = -1 then False
             else if idxJ = -1 then True
             else orderI < orderJ)
      else orderI < orderJ)"

definition serviceLess :: "string list \<Rightarrow> serviceWithOrder \<Rightarrow> serviceWithOrder \<Rightarrow> bool" where
  "serviceLess serviceOrder a b = lessByOrder serviceOrder (swName a) (swOrder a) (swName b) (swOrder b)"

definition volumeLess :: "string list \<Rightarrow> volumeWithOrder \<Rightarrow> volumeWithOrder \<Rightarrow> bool" where
  "volumeLess volumeOrder a b = lessByOrder volumeOrder (vwName a) (vwOrder a) (vwName b) (vwOrder b)"

text \<open>
  The three sorting functions get the entries of their map in the order in which this
  call's \<^verbatim>\<open>range\<close> enumerates them.
\<close>

definition getSortedNetworks ::
  "longSort \<Rightarrow> (string \<times> NetworkConfig) list \<Rightarrow> networkWithName list" where
  "getSortedNetworks longSortFn networks =
     sortSlice longSortFn (\<lambda>a b. nwName a < nwName b)
       (map (\<lambda>(networkName, net). \<lparr>nwName = networkName, network = net\<rparr>) networks)"

definition getSortedServices ::
  "longSort \<Rightarrow> (string \<times> ComposeServiceConfig) list \<Rightarrow> string list \<Rightarrow>
     serviceWithOrder list" where
  "getSortedServices longSortFn services serviceOrder =
     sortSlice longSortFn (serviceLess serviceOrder)
       (map (\<lambda>(serviceName, svc).
               \<lparr>swName = serviceName, swOrder = svcOrder svc, service = svc\<rparr>) services)"

definition getSortedVolumes ::
  "longSort \<Rightarrow> (string \<times> VolumeConfig) list \<Rightarrow> string list \<Rightarrow> volumeWithOrder list" where
  "getSortedVolumes longSortFn volumes volumeOrder =
     sortSlice longSortFn (volumeLess volumeOrder)
       (map (\<lambda>(volumeName, vol).
               \<lparr>vwName = volumeName, vwOrder = volOrder vol, volume = vol\<rparr>) volumes)"

section \<open>Options and dimension calculator\<close>

text \<open>\<^verbatim>\<open>options == nil\<close> is \<open>None\<close>; a supplied options value is returned as it is.\<close>

definition initDefaultOptions :: "GraphLayoutOptions option \<Rightarrow> GraphLayoutOptions" where
  "initDefaultOptions options =
     (case options of
        None \<Rightarrow>
          \<lparr>Direction = ''LR'', NodeWidth = 240, NodeHeight = 120, NodeGapX = 100,
           NodeGapY = 50, Padding = 50, ColumnGap = 440, ColumnTopGap = 120,
           DockerComposeStart = -350, VolumeXOffset = 300, VolumeYOffset = 180,
           LastY = -1000\<rparr>
      | Some given \<Rightarrow> given)"

definition calculateGraphDimensions ::
  "ComposeProjectConfig \<Rightarrow> GraphLayoutOptions \<Rightarrow> GraphDimensions" where
  "calculateGraphDimensions project options =
     (let serviceCount = int (length (Services project));
          volumeCount = int (length (Volumes project));
          networkCount = int (length (Networks project));
          dockerComposeX = 0;
          dockerComposeY = sub64 (mul64 serviceCount (NodeHeight options) sdiv 2) 10;
          serviceHeight0 = mul64 serviceCount (NodeHeight options);
          serviceHeight =
            (if serviceHeight0 < NodeWidth options then NodeWidth options else serviceHeight0);
          networkHeight0 = mul64 networkCount (NodeHeight options);
          networkHeight =
            (if networkHeight0 < NodeHeight options then NodeHeight options else networkHeight0);
          serviceBaseY = Padding options;
          networkStartY =
            (if serviceHeight \<ge> networkHeight
             then add64 serviceBaseY (sub64 serviceHeight networkHeight sdiv 2)
             else sub64 serviceBaseY (sub64 networkHeight serviceHeight sdiv 2));
          serviceStartX = add64 dockerComposeX (ColumnGap options);
          serviceStartY = Padding options;
          volumeYOffset = VolumeYOffset options;
          unusedVolumeStartY = add64 dockerComposeY volumeYOffset
      in \<lparr>ServiceCount = serviceCount, VolumeCount = volumeCount,
          NetworkCount = networkCount, DockerComposeX = dockerComposeX,
          DockerComposeY = dockerComposeY, ServiceHeight = serviceHeight,
          NetworkHeight = networkHeight, ServiceBaseY = serviceBaseY,
          NetworkStartY = networkStartY, ServiceStartX = serviceStartX,
          ServiceStartY = serviceStartY, dimVolumeYOffset = volumeYOffset,
          UnusedVolumeStartY = unusedVolumeStartY\<rparr>)"

section \<open>Node factories\<close>

definition createDockerComposeNode ::
  "ComposeProjectConfig \<Rightarrow> GraphLayoutOptions \<Rightarrow> GraphDimensions \<Rightarrow> ReactFlowNode" where
  "createDockerComposeNode project options dimensions =
     \<lparr>nodeID = ''docker-compose'', nodeType = ''compose'',
      Position = \<lparr>posX = float64 (DockerComposeStart options),
                  posY = float64 (DockerComposeY dimensions)\<rparr>,
      Data = \<lparr>Label = Name project, dataType = ''compose'', Service = None,
              Network = None, Volume = None, Status = [],
              Properties =
                [(''services'', JInt (ServiceCount dimensions)),
                 (''networks'', JInt (NetworkCount dimensions)),
                 (''volumes'', JInt (VolumeCount dimensions)),
                 (''version'', JStr (Version project))]\<rparr>,
      Width = 0, Height = 0, nodeStyle = []\<rparr>"

definition networkNode :: "GraphDimensions \<Rightarrow> nat \<Rightarrow> networkWithName \<Rightarrow> ReactFlowNode" where
  "networkNode dimensions networkIndex item =
     (let networkName = nwName item;
          net = network item;
          x = add64 (DockerComposeX dimensions) 20;
          y = add64 (NetworkStartY dimensions) (mul64 (int networkIndex) 120)
      in \<lparr>nodeID = ''network-'' @ networkName, nodeType = ''network'',
          Position = \<lparr>posX = float64 x, posY = float64 y\<rparr>,
          Data = \<lparr>Label = networkName, dataType = ''network'', Service = None,
                  Network = Some net, Volume = None, Status = [],
                  Properties =
                    [(''driver'', JStr (netDriver net)),
                     (''internal'', JBool (netInternal net)),
                     (''external'', JBool (netExternal net)),
                     (''attachable'', JBool (netAttachable net))]\<rparr>,
          Width = 0, Height = 0, nodeStyle = []\<rparr>)"

text \<open>
  The second result is the map \<^verbatim>\<open>networkNodes\<close> from network name to node id; the
  loop stores \<open>''network-'' @ name\<close> under each name.
\<close>

definition createNetworkNodes ::
  "Runtime \<Rightarrow> ComposeProjectConfig \<Rightarrow> GraphLayoutOptions \<Rightarrow> GraphDimensions \<Rightarrow>
     ReactFlowNode list \<times> (string \<rightharpoonup> string)" where
  "createNetworkNodes rt project options dimensions =
     (let networksList = getSortedNetworks (longSortOf rt) (rangeNetworkNodes rt)
      in (map (\<lambda>(networkIndex, item). networkNode dimensions networkIndex item)
            (enumerate 0 networksList),
          map_of (map (\<lambda>item. (nwName item, ''network-'' @ nwName item)) networksList)))"

definition serviceNode ::
  "GraphLayoutOptions \<Rightarrow> GraphDimensions \<Rightarrow> nat \<Rightarrow> serviceWithOrder \<Rightarrow> ReactFlowNode" where
  "serviceNode options dimensions serviceIndex item =
     (let serviceName = swName item;
          svc = service item;
          x = ServiceStartX dimensions;
          y = add64 (ServiceStartY dimensions)
                (mul64 (int serviceIndex) (ColumnTopGap options))
      in \<lparr>nodeID = ''services-'' @ serviceName, nodeType = ''services'',
          Position = \<lparr>posX = float64 x, posY = float64 y\<rparr>,
          Data = \<lparr>Label = serviceName, dataType = ''services'', Service = Some svc,
                  Network = None, Volume = None, Status = ''saved'',
                  Properties =
                    [(''image'', JStr (svcImage svc)),
                     (''ports'', JInt (int (length (svcPorts svc)))),
                     (''volumes'', JInt (int (length (svcVolumes svc)))),
                     (''depends_on'', JInt (int (length (svcDependsOn svc)))),
                     (''networks'', JInt (int (length (svcNetworks svc)))),
                     (''color'', JStr ''#3b82f6''),
                     (''order'', JInt (svcOrder svc))]\<rparr>,
          Width = 0, Height = 0, nodeStyle = []\<rparr>)"

definition createServiceNodes ::
  "Runtime \<Rightarrow> ComposeProjectConfig \<Rightarrow> GraphLayoutOptions \<Rightarrow> GraphDimensions \<Rightarrow>
     ReactFlowNode list \<times> (string \<rightharpoonup> string)" where
  "createServiceNodes rt project options dimensions =
     (let servicesList =
            getSortedServices (longSortOf rt) (rangeServiceNodes rt) (ServiceOrder project)
      in (map (\<lambda>(serviceIndex, item). serviceNode options dimensions serviceIndex item)
            (enumerate 0 servicesList),
          map_of (map (\<lambda>item. (swName item, ''services-'' @ swName item)) servicesList)))"

section \<open>Network and fallback edges\<close>

definition networkServiceEdge :: "string \<Rightarrow> string \<Rightarrow> string \<Rightarrow> string \<Rightarrow> ReactFlowEdge" where
  "networkServiceEdge networkName serviceName networkNodeID nodeId =
     \<lparr>edgeID = ''edge-network-services-'' @ networkName @ ''-'' @ serviceName,
      Source = networkNodeID, SourceHandle = [], Target = nodeId, TargetHandle = [],
      edgeType = ''smoothstep'', Animated = False,
      edgeStyle = [(''strokeWidth'', JInt 0), (''stroke'', JStr ''transparent'')],
      edgeLabel = networkName,
      LabelStyle = [(''fill'', JStr ''#3b82f6''), (''opacity'', JDec 4 1),
                    (''textAlign'', JStr ''center'')]\<rparr>"

definition composeServiceEdge :: "int \<Rightarrow> string \<Rightarrow> ReactFlowEdge" where
  "composeServiceEdge edgeCounter nodeId =
     \<lparr>edgeID = ''edge-compose-services-'' @ showInt edgeCounter,
      Source = ''docker-compose'', SourceHandle = [], Target = nodeId, TargetHandle = [],
      edgeType = ''smoothstep'', Animated = False,
      edgeStyle = [(''strokeWidth'', JDec 15 1), (''strokeDasharray'', JStr ''5,5'')],
      edgeLabel = [], LabelStyle = []\<rparr>"

text \<open>
  The inner loop over \<^verbatim>\<open>service.Networks\<close>, on the state
  (\<^verbatim>\<open>edges\<close>, \<^verbatim>\<open>edgeCounter\<close>, \<^verbatim>\<open>hasNetworkConnections\<close>).
\<close>

fun networkEdgesOfService ::
  "(string \<rightharpoonup> string) \<Rightarrow> string \<Rightarrow> string list \<Rightarrow>
     ReactFlowEdge list \<times> int \<times> bool \<Rightarrow> ReactFlowEdge list \<times> int \<times> bool" where
  "networkEdgesOfService networkNodeMap serviceName [] st = st"
| "networkEdgesOfService networkNodeMap serviceName (networkName # rest)
     (edges, edgeCounter, hasNetworkConnections) =
     (case networkNodeMap networkName of
        Some networkNodeID \<Rightarrow>
          networkEdgesOfService networkNodeMap serviceName rest
            (edges @ [networkServiceEdge networkName serviceName networkNodeID
                        (''services-'' @ serviceName)],
             edgeCounter + 1, True)
      | None \<Rightarrow>
          networkEdgesOfService networkNodeMap serviceName rest
            (edges, edgeCounter, hasNetworkConnections))"

fun networkToServiceLoop ::
  "(string \<rightharpoonup> string) \<Rightarrow> serviceWithOrder list \<Rightarrow>
     ReactFlowEdge list \<times> int \<Rightarrow> ReactFlowEdge list \<times> int" where
  "networkToServiceLoop networkNodeMap [] st = st"
| "networkToServiceLoop networkNodeMap (item # rest) (edges, edgeCounter) =
     (case networkEdgesOfService networkNodeMap (swName item)
             (svcNetworks (service item)) (edges, edgeCounter, False) of
        (edges', edgeCounter', hasNetworkConnections) \<Rightarrow>
          if \<not> hasNetworkConnections
          then networkToServiceLoop networkNodeMap rest
                 (edges' @ [composeServiceEdge (edgeCounter' + 1)
                              (''services-'' @ swName item)],
                  edgeCounter' + 1)
          else networkToServiceLoop networkNodeMap rest (edges', edgeCounter'))"

definition createNetworkToServiceEdges ::
  "Runtime \<Rightarrow> ComposeProjectConfig \<Rightarrow> ReactFlowNode list \<Rightarrow> (string \<rightharpoonup> string) \<Rightarrow>
     GraphDimensions \<Rightarrow> ReactFlowEdge list" where
  "createNetworkToServiceEdges rt project serviceNodes networkNodeMap dimensions =
     fst (networkToServiceLoop networkNodeMap
            (getSortedServices (longSortOf rt) (rangeNetworkEdges rt) (ServiceOrder project))
            ([], 0))"

section \<open>Volume usage and volume nodes\<close>

text \<open>
  \<^verbatim>\<open>volumeUsage\<close> and \<^verbatim>\<open>servicePositions\<close> are maps the code builds itself and
  then only looks up, or enumerates to do the same thing for every key; they are partial
  functions here. \<^verbatim>\<open>append(volumeUsage[name], serviceName)\<close> reads the empty slice
  under a missing key.
\<close>

definition collectServicePositions :: "ReactFlowNode list \<Rightarrow> (string \<rightharpoonup> ReactFlowPosition)" where
  "collectServicePositions serviceNodes =
     foldl (\<lambda>servicePositions node.
              if nodeType node = ''services''
              then servicePositions(Label (Data node) \<mapsto> Position node)
              else servicePositions)
       Map.empty serviceNodes"

definition addVolumeUsage ::
  "string \<Rightarrow> (string \<rightharpoonup> string list) \<Rightarrow> VolumeMount \<Rightarrow> (string \<rightharpoonup> string list)" where
  "addVolumeUsage serviceName volumeUsage volumeMount =
     (if mountType volumeMount = ''volume'' \<and> mountSource volumeMount \<noteq> []
      then (let volumeName = mountSource volumeMount
            in volumeUsage(volumeName \<mapsto>
                 (case volumeUsage volumeName of None \<Rightarrow> [] | Some names \<Rightarrow> names)
                   @ [serviceName]))
      else volumeUsage)"

definition collectVolumeUsage ::
  "Runtime \<Rightarrow> ComposeProjectConfig \<Rightarrow> ReactFlowNode list \<Rightarrow>
     (string \<rightharpoonup> string list) \<times> (string \<rightharpoonup> ReactFlowPosition)" where
  "collectVolumeUsage rt project serviceNodes =
     (foldl (\<lambda>volumeUsage item.
               foldl (addVolumeUsage (swName item)) volumeUsage (svcVolumes (service item)))
        Map.empty
        (getSortedServices (longSortOf rt) (rangeVolumeUsage rt) (ServiceOrder project)),
      collectServicePositions serviceNodes)"

text \<open>
  The sums of the positions of the services that use one volume: the state of the loop
  over \<^verbatim>\<open>serviceNames\<close> is (\<^verbatim>\<open>sumX\<close>, \<^verbatim>\<open>sumY\<close>, \<^verbatim>\<open>count\<close>, here \<open>cnt\<close>).
\<close>

definition sumServicePositions ::
  "(string \<rightharpoonup> ReactFlowPosition) \<Rightarrow> string list \<Rightarrow> int \<times> int \<times> int" where
  "sumServicePositions servicePositions serviceNames =
     foldl (\<lambda>(sumX, sumY, cnt) serviceName.
              case servicePositions serviceName of
                Some pos \<Rightarrow>
                  (add64 sumX (intOfFloat (posX pos)), add64 sumY (intOfFloat (posY pos)),
                   cnt + 1)
              | None \<Rightarrow> (sumX, sumY, cnt))
       (0, 0, 0) serviceNames"

definition volumeServiceX ::
  "(string \<rightharpoonup> string list) \<Rightarrow> (string \<rightharpoonup> ReactFlowPosition) \<Rightarrow> (string \<rightharpoonup> int)" where
  "volumeServiceX volumeUsage servicePositions volumeName =
     (case volumeUsage volumeName of
        None \<Rightarrow> None
      | Some serviceNames \<Rightarrow>
          if length serviceNames > 0 then
            (case sumServicePositions servicePositions serviceNames of
               (sumX, sumY, cnt) \<Rightarrow> if cnt > 0 then Some (sumX sdiv cnt) else None)
          else None)"

definition volumeServiceY ::
  "(string \<rightharpoonup> string list) \<Rightarrow> (string \<rightharpoonup> ReactFlowPosition) \<Rightarrow> (string \<rightharpoonup> int)" where
  "volumeServiceY volumeUsage servicePositions volumeName =
     (case volumeUsage volumeName of
        None \<Rightarrow> None
      | Some serviceNames \<Rightarrow>
          if length serviceNames > 0 then
            (case sumServicePositions servicePositions serviceNames of
               (sumX, sumY, cnt) \<Rightarrow> if cnt > 0 then Some (sumY sdiv cnt) else None)
          else None)"

text \<open>Reading a Go map under a missing key gives the zero value.\<close>

definition intAt :: "(string \<rightharpoonup> int) \<Rightarrow> string \<Rightarrow> int" where
  "intAt m k = (case m k of None \<Rightarrow> 0 | Some v \<Rightarrow> v)"

definition namesAt :: "(string \<rightharpoonup> string list) \<Rightarrow> string \<Rightarrow> string list" where
  "namesAt m k = (case m k of None \<Rightarrow> [] | Some v \<Rightarrow> v)"

definition volumeUsed :: "(string \<rightharpoonup> string list) \<Rightarrow> string \<Rightarrow> bool" where
  "volumeUsed volumeUsage volumeName = (volumeUsage volumeName \<noteq> None)"

definition usedVolumes ::
  "(string \<rightharpoonup> string list) \<Rightarrow> (string \<rightharpoonup> ReactFlowPosition) \<Rightarrow>
     volumeWithOrder list \<Rightarrow> positionedVolume list" where
  "usedVolumes volumeUsage servicePositions volumesList =
     map (\<lambda>item.
            \<lparr>pvName = vwName item, pvVolume = volume item,
             targetY = intAt (volumeServiceY volumeUsage servicePositions) (vwName item),
             serviceX = intAt (volumeServiceX volumeUsage servicePositions) (vwName item),
             usedBy = namesAt volumeUsage (vwName item)\<rparr>)
       (filter (\<lambda>item. volumeUsed volumeUsage (vwName item)) volumesList)"

definition unusedVolumes ::
  "(string \<rightharpoonup> string list) \<Rightarrow> volumeWithOrder list \<Rightarrow> positionedVolume list" where
  "unusedVolumes volumeUsage volumesList =
     map (\<lambda>item.
            \<lparr>pvName = vwName item, pvVolume = volume item, targetY = 0, serviceX = 0,
             usedBy = namesAt volumeUsage (vwName item)\<rparr>)
       (filter (\<lambda>item. \<not> volumeUsed volumeUsage (vwName item)) volumesList)"

definition usedVolumeNode :: "positionedVolume \<Rightarrow> int \<Rightarrow> int \<Rightarrow> ReactFlowNode" where
  "usedVolumeNode vol x y =
     \<lparr>nodeID = ''volume-'' @ pvName vol, nodeType = ''volume'',
      Position = \<lparr>posX = float64 x, posY = float64 y\<rparr>,
      Data = \<lparr>Label = pvName vol, dataType = ''volume'', Service = None, Network = None,
              Volume = Some (pvVolume vol), Status = [],
              Properties =
                [(''driver'', JStr (volDriver (pvVolume vol))),
                 (''external'', JBool (volExternal (pvVolume vol))),
                 (''order'', JInt (volOrder (pvVolume vol))),
                 (''used_by'', JStrs (usedBy vol)),
                 (''used'', JBool True)]\<rparr>,
      Width = 0, Height = 0, nodeStyle = []\<rparr>"

text \<open>
  The loop that places the used volumes, on the index \<open>i\<close> and \<^verbatim>\<open>lastY\<close>.
\<close>

fun placeUsedVolumes ::
  "GraphLayoutOptions \<Rightarrow> positionedVolume list \<Rightarrow> nat \<Rightarrow> int \<Rightarrow> ReactFlowNode list" where
  "placeUsedVolumes options [] i lastY = []"
| "placeUsedVolumes options (vol # rest) i lastY =
     (let desiredY = targetY vol;
          y = (if i = 0
               then (if desiredY < Padding options then Padding options else desiredY)
               else (let minY = add64 lastY (ColumnTopGap options)
                     in if desiredY < minY then minY else desiredY));
          x = add64 (serviceX vol) (VolumeXOffset options)
      in usedVolumeNode vol x y # placeUsedVolumes options rest (i + 1) y)"

definition unusedVolumeNode ::
  "GraphLayoutOptions \<Rightarrow> int \<Rightarrow> nat \<Rightarrow> positionedVolume \<Rightarrow> ReactFlowNode" where
  "unusedVolumeNode options unusedVolumeStartY i vol =
     (let x = DockerComposeStart options;
          y = add64 unusedVolumeStartY (mul64 (int i) (NodeGapX options))
      in \<lparr>nodeID = ''volume-'' @ pvName vol, nodeType = ''volume'',
          Position = \<lparr>posX = float64 x, posY = float64 y\<rparr>,
          Data = \<lparr>Label = pvName vol, dataType = ''volume'', Service = None,
                  Network = None, Volume = Some (pvVolume vol), Status = ''unused'',
                  Properties =
                    [(''driver'', JStr (volDriver (pvVolume vol))),
                     (''external'', JBool (volExternal (pvVolume vol))),
                     (''order'', JInt (volOrder (pvVolume vol))),
                     (''used_by'', JStrs (usedBy vol)),
                     (''used'', JBool False),
                     (''status'', JStr ''unused'')]\<rparr>,
          Width = 0, Height = 0, nodeStyle = [(''opacity'', JDec 5 1)]\<rparr>)"

text \<open>
  The edge that the loop over the unused volumes builds for each of them. The loop then
  drops it (\<^verbatim>\<open>_ = edge\<close>): \<^verbatim>\<open>createVolumeNodes\<close> returns nodes only.
\<close>

definition unusedVolumeEdge :: "positionedVolume \<Rightarrow> ReactFlowEdge" where
  "unusedVolumeEdge vol =
     \<lparr>edgeID = ''edge-compose-unused-volume-'' @ pvName vol,
      Source = ''docker-compose'', SourceHandle = ''docker-compose-source-2'',
      Target = ''volume-'' @ pvName vol, TargetHandle = [],
      edgeType = ''step'', Animated = False,
      edgeStyle = [(''strokeWidth'', JInt 1), (''stroke'', JStr ''#9ca3af''),
                   (''strokeDasharray'', JStr ''3,3''), (''opacity'', JDec 6 1)],
      edgeLabel = ''unused'',
      LabelStyle = [(''fill'', JStr ''#9ca3af''), (''fontWeight'', JStr ''400''),
                    (''fontSize'', JStr ''9px''),
                    (''background'', JStr ''rgba(255, 255, 255, 0.8)''),
                    (''padding'', JStr ''1px 4px''), (''borderRadius'', JStr ''3px'')]\<rparr>"

text \<open>
  \<^verbatim>\<open>createVolumeNodes\<close> sorts the volumes once (\<open>sortedVolumes\<close>), splits them into
  used and unused, and sorts the used ones by their target Y.
\<close>

definition sortedVolumes :: "Runtime \<Rightarrow> ComposeProjectConfig \<Rightarrow> volumeWithOrder list" where
  "sortedVolumes rt project =
     getSortedVolumes (longSortOf rt) (rangeVolumeNodes rt) (VolumeOrder project)"

definition sortedUsedVolumes ::
  "Runtime \<Rightarrow> ComposeProjectConfig \<Rightarrow> (string \<rightharpoonup> string list) \<Rightarrow>
     (string \<rightharpoonup> ReactFlowPosition) \<Rightarrow> positionedVolume list" where
  "sortedUsedVolumes rt project volumeUsage servicePositions =
     sortSlice (longSortOf rt) (\<lambda>a b. targetY a < targetY b)
       (usedVolumes volumeUsage servicePositions (sortedVolumes rt project))"

definition createVolumeNodes ::
  "Runtime \<Rightarrow> ComposeProjectConfig \<Rightarrow> GraphLayoutOptions \<Rightarrow> GraphDimensions \<Rightarrow>
     (string \<rightharpoonup> string list) \<Rightarrow> (string \<rightharpoonup> ReactFlowPosition) \<Rightarrow> ReactFlowNode list" where
  "createVolumeNodes rt project options dimensions volumeUsage servicePositions =
     placeUsedVolumes options
       (sortedUsedVolumes rt project volumeUsage servicePositions) 0 (LastY options)
     @ map (\<lambda>(i, vol). unusedVolumeNode options (UnusedVolumeStartY dimensions) i vol)
         (enumerate 0 (unusedVolumes volumeUsage (sortedVolumes rt project)))"

section \<open>Dependency and volume edges\<close>

definition dependsEdge :: "int \<Rightarrow> string \<Rightarrow> string \<Rightarrow> ReactFlowEdge" where
  "dependsEdge edgeCounter sourceID targetID =
     \<lparr>edgeID = ''edge-depends-'' @ showInt edgeCounter,
      Source = sourceID, SourceHandle = sourceID @ ''-source-2'',
      Target = targetID, TargetHandle = targetID @ ''-target-2'',
      edgeType = ''smoothstep'', Animated = True,
      edgeStyle = [], edgeLabel = [], LabelStyle = []\<rparr>"

fun dependsEdgesOfService ::
  "(string \<rightharpoonup> string) \<Rightarrow> string \<Rightarrow> string list \<Rightarrow>
     ReactFlowEdge list \<times> int \<Rightarrow> ReactFlowEdge list \<times> int" where
  "dependsEdgesOfService serviceMap sourceID [] st = st"
| "dependsEdgesOfService serviceMap sourceID (dependsOn # rest) (edges, edgeCounter) =
     (case serviceMap dependsOn of
        Some targetID \<Rightarrow>
          dependsEdgesOfService serviceMap sourceID rest
            (edges @ [dependsEdge (edgeCounter + 1) sourceID targetID], edgeCounter + 1)
      | None \<Rightarrow> dependsEdgesOfService serviceMap sourceID rest (edges, edgeCounter))"

definition createDependsOnEdges ::
  "Runtime \<Rightarrow> ComposeProjectConfig \<Rightarrow> (string \<rightharpoonup> string) \<Rightarrow> ReactFlowEdge list" where
  "createDependsOnEdges rt project serviceMap =
     fst (foldl (\<lambda>st item.
                   dependsEdgesOfService serviceMap (''services-'' @ swName item)
                     (svcDependsOn (service item)) st)
            ([], 0)
            (getSortedServices (longSortOf rt) (rangeDependsEdges rt) (ServiceOrder project)))"

definition serviceVolumeEdge :: "int \<Rightarrow> string \<Rightarrow> string \<Rightarrow> ReactFlowEdge" where
  "serviceVolumeEdge edgeCounter sourceID targetID =
     \<lparr>edgeID = ''edge-services-volume-'' @ showInt edgeCounter,
      Source = sourceID, SourceHandle = [], Target = targetID, TargetHandle = [],
      edgeType = ''smoothstep'', Animated = True,
      edgeStyle = [], edgeLabel = [], LabelStyle = []\<rparr>"

text \<open>
  \<^verbatim>\<open>volumeExists\<close>: some node of the \<^verbatim>\<open>serviceNodes\<close> argument has the target id,
  or else the mount's source is a key of \<^verbatim>\<open>volumeUsage\<close>.
\<close>

definition volumeExists ::
  "ReactFlowNode list \<Rightarrow> (string \<rightharpoonup> string list) \<Rightarrow> VolumeMount \<Rightarrow> bool" where
  "volumeExists serviceNodes volumeUsage volumeMount =
     (if list_ex (\<lambda>node. nodeID node = ''volume-'' @ mountSource volumeMount) serviceNodes
      then True
      else volumeUsage (mountSource volumeMount) \<noteq> None)"

fun volumeEdgesOfService ::
  "ReactFlowNode list \<Rightarrow> (string \<rightharpoonup> string list) \<Rightarrow> string \<Rightarrow> VolumeMount list \<Rightarrow>
     ReactFlowEdge list \<times> int \<Rightarrow> ReactFlowEdge list \<times> int" where
  "volumeEdgesOfService serviceNodes volumeUsage sourceID [] st = st"
| "volumeEdgesOfService serviceNodes volumeUsage sourceID (volumeMount # rest)
     (edges, edgeCounter) =
     (if mountType volumeMount = ''volume'' \<and> mountSource volumeMount \<noteq> [] then
        (if volumeExists serviceNodes volumeUsage volumeMount
         then volumeEdgesOfService serviceNodes volumeUsage sourceID rest
                (edges @ [serviceVolumeEdge (edgeCounter + 1) sourceID
                            (''volume-'' @ mountSource volumeMount)],
                 edgeCounter + 1)
         else volumeEdgesOfService serviceNodes volumeUsage sourceID rest
                (edges, edgeCounter))
      else volumeEdgesOfService serviceNodes volumeUsage sourceID rest (edges, edgeCounter))"

definition createServiceToVolumeEdges ::
  "Runtime \<Rightarrow> ComposeProjectConfig \<Rightarrow> ReactFlowNode list \<Rightarrow> (string \<rightharpoonup> string list) \<Rightarrow>
     ReactFlowEdge list" where
  "createServiceToVolumeEdges rt project serviceNodes volumeUsage =
     fst (foldl (\<lambda>st item.
                   volumeEdgesOfService serviceNodes volumeUsage
                     (''services-'' @ swName item) (svcVolumes (service item)) st)
            ([], 0)
            (getSortedServices (longSortOf rt) (rangeVolumeEdges rt) (ServiceOrder project)))"

section \<open>Viewport and graph assembler\<close>

text \<open>
  The bounding-box loop, on the state (\<^verbatim>\<open>minX\<close>, \<^verbatim>\<open>minY\<close>, \<^verbatim>\<open>maxX\<close>,
  \<^verbatim>\<open>maxY\<close>); the viewport keeps the two minima.
\<close>

definition growBox :: "int \<times> int \<times> int \<times> int \<Rightarrow> ReactFlowNode \<Rightarrow> int \<times> int \<times> int \<times> int" where
  "growBox box node =
     (case box of
        (minX, minY, maxX, maxY) \<Rightarrow>
          (if posX (Position node) < minX then posX (Position node) else minX,
           if posY (Position node) < minY then posY (Position node) else minY,
           if floatAdd (posX (Position node)) (float64 (Width node)) > maxX
           then floatAdd (posX (Position node)) (float64 (Width node)) else maxX,
           if floatAdd (posY (Position node)) (float64 (Height node)) > maxY
           then floatAdd (posY (Position node)) (float64 (Height node)) else maxY))"

definition calculateViewport :: "ReactFlowNode list \<Rightarrow> GraphLayoutOptions \<Rightarrow> ReactFlowViewport" where
  "calculateViewport nodes options =
     (case nodes of
        [] \<Rightarrow> \<lparr>viewX = 0, viewY = 0, Zoom = JDec 8 1\<rparr>
      | first # others \<Rightarrow>
          (case foldl growBox
                  (posX (Position first), posY (Position first),
                   floatAdd (posX (Position first)) (float64 (Width first)),
                   floatAdd (posY (Position first)) (float64 (Height first))) others of
             (minX, minY, maxX, maxY) \<Rightarrow>
               \<lparr>viewX = floatSub minX (float64 (Padding options)),
                viewY = floatSub minY (float64 (Padding options)),
                Zoom = JDec 8 1\<rparr>))"

text \<open>\<^verbatim>\<open>time.Now()\<close> is the argument \<open>now\<close>.\<close>

definition buildFinalGraph ::
  "nat \<Rightarrow> ComposeProjectConfig \<Rightarrow> ReactFlowNode list \<Rightarrow> ReactFlowEdge list \<Rightarrow>
     ReactFlowViewport \<Rightarrow> ReactFlowGraph" where
  "buildFinalGraph now project nodes edges viewport =
     \<lparr>Nodes = nodes, Edges = edges, Project = Name project, Layout = ''custom'',
      graphDirection = ''LR'', Viewport = viewport, CreatedAt = now\<rparr>"

section \<open>The layout\<close>

text \<open>
  \<^verbatim>\<open>ParseToReactFlow\<close> returns a graph and an error that is always nil; the model returns
  the graph. Every helper that enumerates a map does so for itself, in the order that
  the runtime gives to that enumeration.
\<close>

definition ParseToReactFlow ::
  "nat \<Rightarrow> Runtime \<Rightarrow> ComposeProjectConfig \<Rightarrow> GraphLayoutOptions option \<Rightarrow> ReactFlowGraph" where
  "ParseToReactFlow now rt project options0 =
     (let options = initDefaultOptions options0;
          dimensions = calculateGraphDimensions project options;
          dockerComposeNode = createDockerComposeNode project options dimensions;
          (networkNodes, networkNodeMap) = createNetworkNodes rt project options dimensions;
          (serviceNodes, serviceMap) = createServiceNodes rt project options dimensions;
          networkEdges =
            createNetworkToServiceEdges rt project serviceNodes networkNodeMap dimensions;
          (volumeUsage, servicePositions) = collectVolumeUsage rt project serviceNodes;
          volumeNodes =
            createVolumeNodes rt project options dimensions volumeUsage servicePositions;
          dependsEdges = createDependsOnEdges rt project serviceMap;
          serviceToVolumeEdges =
            createServiceToVolumeEdges rt project serviceNodes volumeUsage;
          allNodes = [dockerComposeNode] @ networkNodes @ serviceNodes @ volumeNodes;
          viewport = calculateViewport allNodes options;
          allEdges = networkEdges @ dependsEdges @ serviceToVolumeEdges
      in buildFinalGraph now project allNodes allEdges viewport)"

section \<open>The ordering rule in the words of the specification\<close>

text \<open>
  The specification describes the tie-break between two entities of order zero by the
  position of each name in the declared sequence, the first occurrence counting.
  \<open>firstPosition\<close> is that position and \<open>declaredLess\<close> the rule: both found, the
  smaller position first; only one found, that one first; a name that is not found never
  first. \<open>orderKey\<close> is the sort key the whole comparator amounts to: the order value,
  then (among order zero) the declared position, a missing name counting as the length
  of the sequence.
\<close>

fun firstPosition :: "string list \<Rightarrow> string \<Rightarrow> nat option" where
  "firstPosition [] name = None"
| "firstPosition (n # rest) name =
     (if n = name then Some 0 else map_option Suc (firstPosition rest name))"

definition declaredLess :: "string list \<Rightarrow> string \<Rightarrow> string \<Rightarrow> bool" where
  "declaredLess declared nameI nameJ =
     (case (firstPosition declared nameI, firstPosition declared nameJ) of
        (Some i, Some j) \<Rightarrow> i < j
      | (Some i, None) \<Rightarrow> True
      | (None, _) \<Rightarrow> False)"

definition orderKey :: "string list \<Rightarrow> string \<Rightarrow> int \<Rightarrow> int \<times> nat" where
  "orderKey declared name ord =
     (ord, if ord = 0
           then (case firstPosition declared name of Some i \<Rightarrow> i | None \<Rightarrow> length declared)
           else 0)"

section \<open>Notions used to state the properties\<close>

subsection \<open>Intermediate values of one layout call\<close>

text \<open>
  The values that \<^verbatim>\<open>ParseToReactFlow\<close> computes on the way, named so that properties
  of the output can refer to them: the dimensions, the service nodes, the usage map and
  position map of \<^verbatim>\<open>collectVolumeUsage\<close>, the used volumes in the order in which
  they are placed, and the three edge lists that make up the output's edges.
\<close>

definition layoutDimensions ::
  "ComposeProjectConfig \<Rightarrow> GraphLayoutOptions option \<Rightarrow> GraphDimensions" where
  "layoutDimensions project options0 =
     calculateGraphDimensions project (initDefaultOptions options0)"

definition layoutServiceNodes ::
  "Runtime \<Rightarrow> ComposeProjectConfig \<Rightarrow> GraphLayoutOptions option \<Rightarrow> ReactFlowNode list" where
  "layoutServiceNodes rt project options0 =
     fst (createServiceNodes rt project (initDefaultOptions options0)
            (layoutDimensions project options0))"

definition layoutVolumeUsage ::
  "Runtime \<Rightarrow> ComposeProjectConfig \<Rightarrow> GraphLayoutOptions option \<Rightarrow>
     (string \<rightharpoonup> string list)" where
  "layoutVolumeUsage rt project options0 =
     fst (collectVolumeUsage rt project (layoutServiceNodes rt project options0))"

definition layoutServicePositions ::
  "Runtime \<Rightarrow> ComposeProjectConfig \<Rightarrow> GraphLayoutOptions option \<Rightarrow>
     (string \<rightharpoonup> ReactFlowPosition)" where
  "layoutServicePositions rt project options0 =
     snd (collectVolumeUsage rt project (layoutServiceNodes rt project options0))"

definition layoutUsedVolumes ::
  "Runtime \<Rightarrow> ComposeProjectConfig \<Rightarrow> GraphLayoutOptions option \<Rightarrow>
     positionedVolume list" where
  "layoutUsedVolumes rt project options0 =
     sortedUsedVolumes rt project (layoutVolumeUsage rt project options0)
       (layoutServicePositions rt project options0)"

definition layoutNetworkEdges ::
  "Runtime \<Rightarrow> ComposeProjectConfig \<Rightarrow> GraphLayoutOptions option \<Rightarrow> ReactFlowEdge list" where
  "layoutNetworkEdges rt project options0 =
     createNetworkToServiceEdges rt project (layoutServiceNodes rt project options0)
       (snd (createNetworkNodes rt project (initDefaultOptions options0)
               (layoutDimensions project options0)))
       (layoutDimensions project options0)"

definition layoutDependsEdges ::
  "Runtime \<Rightarrow> ComposeProjectConfig \<Rightarrow> GraphLayoutOptions option \<Rightarrow> ReactFlowEdge list" where
  "layoutDependsEdges rt project options0 =
     createDependsOnEdges rt project
       (snd (createServiceNodes rt project (initDefaultOptions options0)
               (layoutDimensions project options0)))"

definition layoutVolumeEdges ::
  "Runtime \<Rightarrow> ComposeProjectConfig \<Rightarrow> GraphLayoutOptions option \<Rightarrow> ReactFlowEdge list" where
  "layoutVolumeEdges rt project options0 =
     createServiceToVolumeEdges rt project (layoutServiceNodes rt project options0)
       (layoutVolumeUsage rt project options0)"

subsection \<open>Edges of one service\<close>

text \<open>
  The two ends of an edge; the network memberships of a service that name a declared
  network; among a list of edges, the fallback edges (from the root) and the network
  edges (from a network node) that arrive at the node of one service. \<open>perService\<close>
  lists the ends of the edges that the network phase emits for one service.
\<close>

definition edgeEnds :: "ReactFlowEdge \<Rightarrow> string \<times> string" where
  "edgeEnds e = (Source e, Target e)"

definition resolvableNetworks :: "ComposeProjectConfig \<Rightarrow> ComposeServiceConfig \<Rightarrow> string list" where
  "resolvableNetworks project svc =
     filter (\<lambda>networkName. networkName \<in> set (map fst (Networks project))) (svcNetworks svc)"

definition fallbackEdgesOf :: "string \<Rightarrow> ReactFlowEdge list \<Rightarrow> ReactFlowEdge list" where
  "fallbackEdgesOf serviceName edges =
     filter (\<lambda>e. Source e = ''docker-compose'' \<and> Target e = ''services-'' @ serviceName) edges"

definition networkEdgesOf :: "string \<Rightarrow> ReactFlowEdge list \<Rightarrow> ReactFlowEdge list" where
  "networkEdgesOf serviceName edges =
     filter (\<lambda>e. take 8 (Source e) = ''network-'' \<and> Target e = ''services-'' @ serviceName) edges"

definition perService :: "(string \<rightharpoonup> string) \<Rightarrow> serviceWithOrder \<Rightarrow> (string \<times> string) list" where
  "perService m item =
     (let r = filter (\<lambda>n. m n \<noteq> None) (svcNetworks (service item))
      in if r = [] then [(''docker-compose'', ''services-'' @ swName item)]
         else map (\<lambda>n. (the (m n), ''services-'' @ swName item)) r)"

subsection \<open>Used volumes\<close>

text \<open>
  The used-volume nodes of a graph are its volume nodes that are not marked unused.
  \<open>meanOf\<close> is the truncating integer mean. \<open>specPlacement\<close> is the placement rule
  in the words of the specification: the first volume at \<open>max meanY padding\<close>, each
  later one at \<open>max meanY (previousPlacedY + gap)\<close>, in exact integer arithmetic.
\<close>

definition usedVolumeNodesOf :: "ReactFlowGraph \<Rightarrow> ReactFlowNode list" where
  "usedVolumeNodesOf g =
     filter (\<lambda>n. nodeType n = ''volume'' \<and> Status (Data n) \<noteq> ''unused'') (Nodes g)"

definition meanOf :: "int list \<Rightarrow> int" where
  "meanOf xs = sum_list xs sdiv int (length xs)"

fun placeAfter :: "int \<Rightarrow> int \<Rightarrow> int list \<Rightarrow> int list" where
  "placeAfter gap previousY [] = []"
| "placeAfter gap previousY (meanY # rest) =
     max meanY (previousY + gap) # placeAfter gap (max meanY (previousY + gap)) rest"

definition specPlacement :: "int \<Rightarrow> int \<Rightarrow> int list \<Rightarrow> int list" where
  "specPlacement padding gap means =
     (case means of
        [] \<Rightarrow> []
      | meanY # rest \<Rightarrow> max meanY padding # placeAfter gap (max meanY padding) rest)"

text \<open>
  \<open>mountersOf v items\<close> lists, for the services \<open>items\<close> in their order, the name of
  the service once for each of its mounts of kind \<open>volume\<close> whose source is \<open>v\<close>: a
  service that mounts \<open>v\<close> twice is listed twice. \<open>mountCount\<close> is the number of
  mounts of a project. \<open>usageOf items\<close> says of a usage map that it maps a nonempty
  name with at least one mount to the list of its mounters, and nothing else.
\<close>

definition mountersOf :: "string \<Rightarrow> serviceWithOrder list \<Rightarrow> string list" where
  "mountersOf v items =
     concat (map (\<lambda>item. map (\<lambda>mnt. swName item)
                          (filter (\<lambda>mnt. mountType mnt = ''volume'' \<and> mountSource mnt = v)
                             (svcVolumes (service item)))) items)"

definition mountCount :: "ComposeProjectConfig \<Rightarrow> nat" where
  "mountCount project = sum_list (map (\<lambda>entry. length (svcVolumes (snd entry))) (Services project))"

definition usageOf :: "serviceWithOrder list \<Rightarrow> (string \<rightharpoonup> string list) \<Rightarrow> bool" where
  "usageOf items vu \<longleftrightarrow>
     (\<forall>k. vu k = (if k \<noteq> [] \<and> mountersOf k items \<noteq> [] then Some (mountersOf k items)
                  else None))"

text \<open>
  The range in which the layout's arithmetic is exact. \<open>layoutExtent\<close> bounds the
  magnitude of every coordinate that the placement of services and used volumes can
  reach; \<open>exactRange\<close> says that this bound is a float that holds every integer up to
  it, and that the sum of as many such coordinates as the project has mounts is an
  \<^verbatim>\<open>int\<close>.
\<close>

definition layoutExtent :: "ComposeProjectConfig \<Rightarrow> GraphLayoutOptions \<Rightarrow> int" where
  "layoutExtent project opts =
     max (\<bar>Padding opts\<bar>
            + int (length (Services project) + length (Volumes project)) * \<bar>ColumnTopGap opts\<bar>)
         (\<bar>ColumnGap opts\<bar> + \<bar>VolumeXOffset opts\<bar>)"

definition exactRange :: "ComposeProjectConfig \<Rightarrow> GraphLayoutOptions \<Rightarrow> bool" where
  "exactRange project opts \<longleftrightarrow>
     layoutExtent project opts \<le> 2 ^ 53 \<and>
     int (mountCount project) * layoutExtent project opts < 2 ^ 63"

subsection \<open>Sort keys and edge identifiers\<close>

text \<open>
  \<open>serviceKey\<close> and \<open>volumeKey\<close> are the sort keys of the entries of a project.
  \<open>countedIds prefix\<close> says of a list of edges that the identifier of the edge at
  position \<open>i\<close> (from 0) is the prefix followed by \<open>i + 1\<close>: the running counter of the
  loop that emitted them. \<open>networkPhaseId\<close> describes the identifier of an edge of the
  network phase at position \<open>i\<close>: a fallback edge carries the counter, a network edge
  the names of its network and its service.
\<close>

definition serviceKey :: "ComposeProjectConfig \<Rightarrow> string \<times> ComposeServiceConfig \<Rightarrow> int \<times> nat" where
  "serviceKey project entry = orderKey (ServiceOrder project) (fst entry) (svcOrder (snd entry))"

definition volumeKey :: "ComposeProjectConfig \<Rightarrow> string \<times> VolumeConfig \<Rightarrow> int \<times> nat" where
  "volumeKey project entry = orderKey (VolumeOrder project) (fst entry) (volOrder (snd entry))"

definition countedIds :: "string \<Rightarrow> ReactFlowEdge list \<Rightarrow> bool" where
  "countedIds prefix edges \<longleftrightarrow>
     map edgeID edges = map (\<lambda>i. prefix @ showInt (int i + 1)) [0..<length edges]"

definition networkPhaseId :: "nat \<Rightarrow> ReactFlowEdge \<Rightarrow> bool" where
  "networkPhaseId i e \<longleftrightarrow>
     Source e = ''docker-compose'' \<and>
       edgeID e = ''edge-compose-services-'' @ showInt (int i + 1) \<or>
     Source e = ''network-'' @ edgeLabel e \<and>
       edgeID e = ''edge-network-services-'' @ edgeLabel e @ ''-'' @ drop 9 (Target e)"

definition networkPhaseIds :: "ReactFlowEdge list \<Rightarrow> bool" where
  "networkPhaseIds edges = list_all (\<lambda>(i, e). networkPhaseId i e) (enumerate 0 edges)"

section \<open>Example projects\<close>

definition emptyService :: ComposeServiceConfig where
  "emptyService =
     \<lparr>svcImage = [], svcOrder = 0, svcDependsOn = [], svcPorts = [], svcNetworks = [],
      svcVolumes = []\<rparr>"

definition emptyNetwork :: NetworkConfig where
  "emptyNetwork =
     \<lparr>netDriver = [], netExternal = False, netAttachable = False, netInternal = False\<rparr>"

definition emptyVolume :: VolumeConfig where
  "emptyVolume = \<lparr>volDriver = [], volExternal = False, volOrder = 0\<rparr>"

definition emptyProject :: ComposeProjectConfig where
  "emptyProject =
     \<lparr>Version = [], Services = [], ServiceOrder = [], VolumeOrder = [], Networks = [],
      Volumes = [], Name = ''demo''\<rparr>"

definition namedVolume :: "string \<Rightarrow> VolumeMount" where
  "namedVolume name =
     \<lparr>mountType = ''volume'', mountSource = name, mountTarget = ''/data'',
      mountReadOnly = False\<rparr>"

text \<open>Entries of order zero, as a caller that fills no order field passes them.\<close>

definition zeroService :: "string \<Rightarrow> serviceWithOrder" where
  "zeroService name = \<lparr>swName = name, swOrder = 0, service = emptyService\<rparr>"

definition zeroVolume :: "string \<Rightarrow> volumeWithOrder" where
  "zeroVolume name = \<lparr>vwName = name, vwOrder = 0, volume = emptyVolume\<rparr>"

text \<open>
  One network \<open>front\<close> and one service that is a member of it; a service that mounts a
  named volume the project does not declare; a declared volume that nothing mounts.
\<close>

definition scenarioC :: ComposeProjectConfig where
  "scenarioC = emptyProject
     \<lparr>Services := [(''web'', emptyService\<lparr>svcOrder := 1, svcNetworks := [''front'']\<rparr>)],
      ServiceOrder := [''web''],
      Networks := [(''front'', emptyNetwork)]\<rparr>"

definition ghostVolumeProject :: ComposeProjectConfig where
  "ghostVolumeProject = emptyProject
     \<lparr>Services := [(''web'', emptyService\<lparr>svcOrder := 1, svcVolumes := [namedVolume ''ghost'']\<rparr>)],
      ServiceOrder := [''web'']\<rparr>"

definition unusedVolumeProject :: ComposeProjectConfig where
  "unusedVolumeProject = emptyProject
     \<lparr>Volumes := [(''data'', emptyVolume\<lparr>volOrder := 1\<rparr>)], VolumeOrder := [''data'']\<rparr>"

text \<open>
  Two services on one declared network \<open>front\<close>: \<open>web\<close> is a member of it, \<open>db\<close>
  only names a network \<open>ext\<close> that the project does not declare.
\<close>

definition webService :: ComposeServiceConfig where
  "webService = emptyService\<lparr>svcOrder := 1, svcNetworks := [''front'']\<rparr>"

definition dbService :: ComposeServiceConfig where
  "dbService = emptyService\<lparr>svcOrder := 2, svcNetworks := [''ext'']\<rparr>"

definition networkProject :: ComposeProjectConfig where
  "networkProject = emptyProject
     \<lparr>Services := [(''web'', webService), (''db'', dbService)],
      ServiceOrder := [''web'', ''db''],
      Networks := [(''front'', emptyNetwork)]\<rparr>"

text \<open>
  Two declared volumes: \<open>a\<close> mounted by both services and \<open>b\<close> by the second only;
  and two declared volumes mounted by the same single service.
\<close>

definition sharedVolumesProject :: ComposeProjectConfig where
  "sharedVolumesProject = emptyProject
     \<lparr>Services :=
        [(''web'', emptyService\<lparr>svcOrder := 1, svcVolumes := [namedVolume ''a'']\<rparr>),
         (''worker'', emptyService\<lparr>svcOrder := 2,
                        svcVolumes := [namedVolume ''a'', namedVolume ''b'']\<rparr>)],
      ServiceOrder := [''web'', ''worker''],
      Volumes := [(''a'', emptyVolume\<lparr>volOrder := 1\<rparr>), (''b'', emptyVolume\<lparr>volOrder := 2\<rparr>)],
      VolumeOrder := [''a'', ''b'']\<rparr>"

definition twoMountsProject :: ComposeProjectConfig where
  "twoMountsProject = emptyProject
     \<lparr>Services :=
        [(''web'', emptyService\<lparr>svcOrder := 1,
                     svcVolumes := [namedVolume ''a'', namedVolume ''b'']\<rparr>)],
      ServiceOrder := [''web''],
      Volumes := [(''a'', emptyVolume\<lparr>volOrder := 1\<rparr>), (''b'', emptyVolume\<lparr>volOrder := 2\<rparr>)],
      VolumeOrder := [''a'', ''b'']\<rparr>"

text \<open>
  Two services: \<open>web\<close> mounts the volume \<open>a\<close> twice, at two targets, and \<open>worker\<close>
  mounts it once.
\<close>

definition repeatedMountProject :: ComposeProjectConfig where
  "repeatedMountProject = emptyProject
     \<lparr>Services :=
        [(''web'', emptyService\<lparr>svcOrder := 1,
                     svcVolumes := [namedVolume ''a'',
                                    (namedVolume ''a'')\<lparr>mountTarget := ''/cache''\<rparr>]\<rparr>),
         (''worker'', emptyService\<lparr>svcOrder := 2, svcVolumes := [namedVolume ''a'']\<rparr>)],
      ServiceOrder := [''web'', ''worker''],
      Volumes := [(''a'', emptyVolume\<lparr>volOrder := 1\<rparr>)],
      VolumeOrder := [''a'']\<rparr>"

text \<open>
  Two services that carry no order and are not in the declared sequence; and a
  dependency from \<open>a\<close> to \<open>b\<close>, alone and together with the opposite dependency of a
  service that sorts first.
\<close>

definition tiedProject :: ComposeProjectConfig where
  "tiedProject = emptyProject\<lparr>Services := [(''a'', emptyService), (''b'', emptyService)]\<rparr>"

definition dependsOneWay :: ComposeProjectConfig where
  "dependsOneWay = emptyProject
     \<lparr>Services := [(''a'', emptyService\<lparr>svcOrder := 1, svcDependsOn := [''b'']\<rparr>),
                   (''b'', emptyService\<lparr>svcOrder := 2\<rparr>)],
      ServiceOrder := [''a'', ''b'']\<rparr>"

definition dependsBothWays :: ComposeProjectConfig where
  "dependsBothWays = emptyProject
     \<lparr>Services := [(''b'', emptyService\<lparr>svcOrder := 1, svcDependsOn := [''a'']\<rparr>),
                   (''a'', emptyService\<lparr>svcOrder := 2, svcDependsOn := [''b'']\<rparr>)],
      ServiceOrder := [''b'', ''a'']\<rparr>"

text \<open>
  Runtimes. \<open>indexSort\<close> sorts by insertion at every length. \<open>listedOrder\<close> enumerates
  every map in the order in which the project lists its entries, \<open>reversedOrder\<close> in
  the opposite order, and \<open>mixedOrder\<close> enumerates the services in the listed order
  when it creates their nodes and in the opposite order in every later enumeration.
\<close>

definition indexSort :: longSort where
  "indexSort n lessFn = insertionSort lessFn [0..<n]"

definition listedOrder :: "ComposeProjectConfig \<Rightarrow> Runtime" where
  "listedOrder project =
     \<lparr>rangeNetworkNodes = Networks project,
      rangeServiceNodes = Services project,
      rangeNetworkEdges = Services project,
      rangeVolumeUsage = Services project,
      rangeVolumeNodes = Volumes project,
      rangeDependsEdges = Services project,
      rangeVolumeEdges = Services project,
      longSortOf = indexSort\<rparr>"

definition reversedOrder :: "ComposeProjectConfig \<Rightarrow> Runtime" where
  "reversedOrder project =
     \<lparr>rangeNetworkNodes = rev (Networks project),
      rangeServiceNodes = rev (Services project),
      rangeNetworkEdges = rev (Services project),
      rangeVolumeUsage = rev (Services project),
      rangeVolumeNodes = rev (Volumes project),
      rangeDependsEdges = rev (Services project),
      rangeVolumeEdges = rev (Services project),
      longSortOf = indexSort\<rparr>"

definition mixedOrder :: "ComposeProjectConfig \<Rightarrow> Runtime" where
  "mixedOrder project = (reversedOrder project)\<lparr>rangeServiceNodes := Services project\<rparr>"


definition noGapOptions :: GraphLayoutOptions where
  "noGapOptions =
     \<lparr>Direction = ''LR'', NodeWidth = 240, NodeHeight = 120, NodeGapX = 100, NodeGapY = 50,
      Padding = 50, ColumnGap = 440, ColumnTopGap = 0, DockerComposeStart = -350,
      VolumeXOffset = 300, VolumeYOffset = 180, LastY = -1000\<rparr>"

definition hugeGapOptions :: GraphLayoutOptions where
  "hugeGapOptions = noGapOptions\<lparr>ColumnTopGap := 9223372036854775807\<rparr>"

definition wideColumnOptions :: GraphLayoutOptions where
  "wideColumnOptions = noGapOptions\<lparr>ColumnGap := 9007199254740993, ColumnTopGap := 120\<rparr>"

section \<open>Exact arithmetic\<close>

lemma wrap64_id: "int64 x \<Longrightarrow> wrap64 x = x"
  by (simp add: int64_def wrap64_def)

lemma float64_id: "\<bar>x\<bar> \<le> 2 ^ 53 \<Longrightarrow> float64 x = x"
  by (simp add: float64_def)

lemma intOfFloat_id: "int64 x \<Longrightarrow> intOfFloat x = x"
  by (simp add: intOfFloat_def)

lemma small_int64: "\<bar>x\<bar> \<le> 2 ^ 53 \<Longrightarrow> int64 x"
  by (simp add: int64_def abs_le_iff)

section \<open>Sorting: permutation, order, uniqueness\<close>

lemma mset_insertLeft: "mset (insertLeft f x ps) = add_mset x (mset ps)"
  by (induction ps) auto

lemma mset_sortLoop:
  "mset (foldl (\<lambda>prefix x. insertLeft f x prefix) acc xs) = mset acc + mset xs"
  by (induction xs arbitrary: acc) (auto simp: mset_insertLeft)

lemma mset_insertionSort: "mset (insertionSort f xs) = mset xs"
  by (simp add: insertionSort_def mset_sortLoop)

lemma mset_sortSlice: "librarySort srt \<Longrightarrow> mset (sortSlice srt f xs) = mset xs"
proof -
  assume "librarySort srt"
  then have "mset (srt (length xs) (\<lambda>i j. f (xs ! i) (xs ! j))) = mset [0..<length xs]"
    by (simp add: librarySort_def)
  then have "mset (map (\<lambda>i. xs ! i) (srt (length xs) (\<lambda>i j. f (xs ! i) (xs ! j))))
             = mset (map (\<lambda>i. xs ! i) [0..<length xs])"
    by (metis mset_map)
  then show ?thesis by (simp add: sortSlice_def mset_insertionSort map_nth)
qed

lemma set_sortSlice: "librarySort srt \<Longrightarrow> set (sortSlice srt f xs) = set xs"
  using mset_sortSlice [of srt f xs] by (metis set_mset_mset)

lemma length_sortSlice: "librarySort srt \<Longrightarrow> length (sortSlice srt f xs) = length xs"
  using mset_sortSlice [of srt f xs] by (metis size_mset)

lemma set_insertLeft: "set (insertLeft f x ps) = insert x (set ps)"
  by (induction ps) auto

lemma insertLeft_ordered:
  assumes asym: "\<forall>a \<in> A. \<forall>b \<in> A. f a b \<longrightarrow> \<not> f b a"
    and ntrans: "\<forall>a \<in> A. \<forall>b \<in> A. \<forall>c \<in> A. \<not> f a b \<and> \<not> f b c \<longrightarrow> \<not> f a c"
  shows "x \<in> A \<Longrightarrow> set ps \<subseteq> A \<Longrightarrow> sorted_wrt (\<lambda>a b. \<not> f a b) ps \<Longrightarrow>
         sorted_wrt (\<lambda>a b. \<not> f a b) (insertLeft f x ps)"
proof (induction ps)
  case Nil
  then show ?case by simp
next
  case (Cons p ps)
  have xp: "x \<in> A" "p \<in> A" "set ps \<subseteq> A" using Cons.prems by simp_all
  show ?case
  proof (cases "f x p")
    case True
    have "\<not> f p x" using asym xp True by blast
    then show ?thesis using True Cons by (auto simp: set_insertLeft)
  next
    case False
    have "\<And>q. q \<in> set ps \<Longrightarrow> \<not> f x q"
    proof -
      fix q assume q: "q \<in> set ps"
      then have "\<not> f p q" using Cons.prems(3) by simp
      moreover have "q \<in> A" using q xp by blast
      ultimately show "\<not> f x q" using ntrans xp False by blast
    qed
    then show ?thesis using False Cons.prems by auto
  qed
qed

lemma sortLoop_ordered:
  assumes asym: "\<forall>a \<in> A. \<forall>b \<in> A. f a b \<longrightarrow> \<not> f b a"
    and ntrans: "\<forall>a \<in> A. \<forall>b \<in> A. \<forall>c \<in> A. \<not> f a b \<and> \<not> f b c \<longrightarrow> \<not> f a c"
  shows "set xs \<subseteq> A \<Longrightarrow> set acc \<subseteq> A \<Longrightarrow> sorted_wrt (\<lambda>a b. \<not> f a b) acc \<Longrightarrow>
         sorted_wrt (\<lambda>a b. \<not> f a b) (foldl (\<lambda>prefix x. insertLeft f x prefix) acc xs)"
proof (induction xs arbitrary: acc)
  case Nil
  then show ?case by simp
next
  case (Cons x xs)
  have x: "x \<in> A" and xs: "set xs \<subseteq> A" using Cons.prems(1) by simp_all
  have s: "sorted_wrt (\<lambda>a b. \<not> f a b) (insertLeft f x acc)"
    by (rule insertLeft_ordered [OF asym ntrans x Cons.prems(2) Cons.prems(3)])
  have sub: "set (insertLeft f x acc) \<subseteq> A"
    using Cons.prems(2) x by (simp add: set_insertLeft)
  show ?case using Cons.IH [OF xs sub s] by simp
qed

lemma insertionSort_ordered:
  assumes asym: "\<forall>a \<in> A. \<forall>b \<in> A. f a b \<longrightarrow> \<not> f b a"
    and ntrans: "\<forall>a \<in> A. \<forall>b \<in> A. \<forall>c \<in> A. \<not> f a b \<and> \<not> f b c \<longrightarrow> \<not> f a c"
    and sub: "set xs \<subseteq> A"
  shows "sorted_wrt (\<lambda>a b. \<not> f b a) (insertionSort f xs)"
proof -
  have "sorted_wrt (\<lambda>a b. \<not> f a b) (foldl (\<lambda>prefix x. insertLeft f x prefix) [] xs)"
    by (rule sortLoop_ordered [OF asym ntrans sub]) simp_all
  then show ?thesis by (simp add: insertionSort_def sorted_wrt_rev)
qed

lemma librarySort_indexSort: "librarySort indexSort"
  unfolding librarySort_def
proof (intro allI conjI impI)
  fix n and lessFn :: "nat \<Rightarrow> nat \<Rightarrow> bool"
  show "mset (indexSort n lessFn) = mset [0..<n]"
    by (simp add: indexSort_def mset_insertionSort)
  assume sw: "strictWeak n lessFn"
  have a: "\<forall>a \<in> {..<n}. \<forall>b \<in> {..<n}. lessFn a b \<longrightarrow> \<not> lessFn b a"
    using sw unfolding strictWeak_def by blast
  have t: "\<forall>a \<in> {..<n}. \<forall>b \<in> {..<n}. \<forall>c \<in> {..<n}.
             \<not> lessFn a b \<and> \<not> lessFn b c \<longrightarrow> \<not> lessFn a c"
    using sw unfolding strictWeak_def by blast
  have s: "set [0..<n] \<subseteq> {..<n}" by auto
  show "sorted_wrt (\<lambda>i j. \<not> lessFn j i) (indexSort n lessFn)"
    unfolding indexSort_def by (rule insertionSort_ordered [OF a t s])
qed

lemma sorted_sortSlice:
  fixes key :: "'a \<Rightarrow> 'k::linorder"
  assumes lib: "librarySort srt" and f: "\<And>a b. f a b \<longleftrightarrow> key a < key b"
  shows "sorted (map key (sortSlice srt f xs))"
proof -
  have "sorted_wrt (\<lambda>a b. \<not> f b a) (sortSlice srt f xs)"
  proof (cases "length xs \<le> 12")
    case True
    have "sorted_wrt (\<lambda>a b. \<not> f b a) (insertionSort f xs)"
      by (rule insertionSort_ordered [where A = UNIV]) (auto simp: f)
    then show ?thesis using True by (simp add: sortSlice_def)
  next
    case False
    let ?g = "\<lambda>i j. f (xs ! i) (xs ! j)"
    have "strictWeak (length xs) ?g" by (auto simp: strictWeak_def f)
    then have "sorted_wrt (\<lambda>i j. \<not> ?g j i) (srt (length xs) ?g)"
      using lib by (simp add: librarySort_def)
    then show ?thesis using False by (simp add: sortSlice_def sorted_wrt_map)
  qed
  then have "sorted_wrt (\<lambda>a b. key a \<le> key b) (sortSlice srt f xs)"
    by (simp add: f not_less)
  then show ?thesis by (simp add: sorted_map)
qed

lemma sortSlice_unique:
  fixes key :: "'a \<Rightarrow> 'k::linorder"
  assumes la: "librarySort srt" and lb: "librarySort srt'"
    and f: "\<And>a b. f a b \<longleftrightarrow> key a < key b"
    and m: "mset xs = mset ys"
    and d: "distinct (map key xs)"
  shows "sortSlice srt f xs = sortSlice srt' f ys"
proof -
  let ?a = "sortSlice srt f xs" and ?b = "sortSlice srt' f ys"
  have mm: "mset ?a = mset ?b" using m by (simp add: mset_sortSlice la lb)
  have "mset (map key ?a) = mset (map key xs)" by (simp add: mset_sortSlice la)
  then have da: "distinct (map key ?a)" using d by (metis mset_eq_imp_distinct_iff)
  have "mset (map key ?b) = mset (map key xs)" using m by (simp add: mset_sortSlice lb)
  then have db: "distinct (map key ?b)" using d by (metis mset_eq_imp_distinct_iff)
  have "set (map key ?a) = set (map key ?b)" using mm by (metis mset_map set_mset_mset)
  then have eq: "map key ?a = map key ?b"
    using sorted_sortSlice [OF la f, where xs = xs] sorted_sortSlice [OF lb f, where xs = ys] da db
    by (intro sorted_distinct_set_unique) auto
  have "inj_on key (set ?a \<union> set ?b)"
    using da mm by (metis distinct_map mset_eq_setD sup.idem)
  then show ?thesis using eq by (simp add: inj_on_map_eq_map)
qed

lemma sortSlice_short:
  "length xs \<le> 12 \<Longrightarrow> sortSlice srt f xs = sortSlice srt' f xs"
  by (simp add: sortSlice_def)

lemma firstPosition_None_iff: "firstPosition L n = None \<longleftrightarrow> n \<notin> set L"
  by (induction L) auto

lemma firstPosition_less: "firstPosition L n = Some i \<Longrightarrow> i < length L"
  by (induction L arbitrary: i) (auto split: if_splits)

lemma firstPosition_Some_mem: "firstPosition L n = Some i \<Longrightarrow> n \<in> set L"
  using firstPosition_None_iff [of L n] by auto

lemma findIndexes_I_set:
  "0 \<le> v \<Longrightarrow> v < k \<Longrightarrow> ni \<noteq> nj \<Longrightarrow> findIndexes ni nj L k v (-1) = (a, b) \<Longrightarrow>
     0 \<le> a \<and> (if nj \<in> set L then a < b else b = -1)"
proof (induction L arbitrary: k v)
  case Nil
  then show ?case by simp
next
  case (Cons name L)
  show ?case
  proof (cases "name = nj")
    case True
    with Cons.prems show ?thesis by (auto simp: Let_def)
  next
    case nj: False
    show ?thesis
    proof (cases "name = ni")
      case True
      with nj Cons.prems have "findIndexes ni nj L (k + 1) k (-1) = (a, b)"
        by (auto simp: Let_def)
      from Cons.IH [OF _ _ Cons.prems(3) this] Cons.prems nj show ?thesis by auto
    next
      case False
      with nj Cons.prems have "findIndexes ni nj L (k + 1) v (-1) = (a, b)"
        by (auto simp: Let_def)
      from Cons.IH [OF _ _ Cons.prems(3) this] Cons.prems nj show ?thesis by auto
    qed
  qed
qed

lemma findIndexes_J_set:
  "0 \<le> v \<Longrightarrow> v < k \<Longrightarrow> ni \<noteq> nj \<Longrightarrow> findIndexes ni nj L k (-1) v = (a, b) \<Longrightarrow>
     0 \<le> b \<and> (if ni \<in> set L then b < a else a = -1)"
proof (induction L arbitrary: k v)
  case Nil
  then show ?case by simp
next
  case (Cons name L)
  show ?case
  proof (cases "name = ni")
    case True
    with Cons.prems show ?thesis by (auto simp: Let_def)
  next
    case ni: False
    show ?thesis
    proof (cases "name = nj")
      case True
      with ni Cons.prems have "findIndexes ni nj L (k + 1) (-1) k = (a, b)"
        by (auto simp: Let_def)
      from Cons.IH [OF _ _ Cons.prems(3) this] Cons.prems ni show ?thesis by auto
    next
      case False
      with ni Cons.prems have "findIndexes ni nj L (k + 1) (-1) v = (a, b)"
        by (auto simp: Let_def)
      from Cons.IH [OF _ _ Cons.prems(3) this] Cons.prems ni show ?thesis by auto
    qed
  qed
qed

lemma findIndexes_start:
  "0 \<le> k \<Longrightarrow> findIndexes ni nj L k (-1) (-1) = (a, b) \<Longrightarrow>
     (a = -1 \<longleftrightarrow> firstPosition L ni = None) \<and>
     (b = -1 \<longleftrightarrow> firstPosition L nj = None) \<and>
     (\<forall>i j. firstPosition L ni = Some i \<and> firstPosition L nj = Some j \<longrightarrow> (a < b \<longleftrightarrow> i < j))"
proof (induction L arbitrary: k)
  case Nil
  then show ?case by simp
next
  case (Cons name L)
  consider (both) "name = ni" "name = nj" | (i) "name = ni" "name \<noteq> nj"
    | (j) "name \<noteq> ni" "name = nj" | (none) "name \<noteq> ni" "name \<noteq> nj" by blast
  then show ?case
  proof cases
    case both
    with Cons.prems show ?thesis by (auto simp: Let_def)
  next
    case i
    with Cons.prems have "findIndexes ni nj L (k + 1) k (-1) = (a, b)" by (auto simp: Let_def)
    from findIndexes_I_set [OF _ _ _ this] Cons.prems i show ?thesis
      by (auto simp: firstPosition_None_iff dest: firstPosition_Some_mem split: if_splits)
  next
    case j
    with Cons.prems have "findIndexes ni nj L (k + 1) (-1) k = (a, b)" by (auto simp: Let_def)
    from findIndexes_J_set [OF _ _ _ this] Cons.prems j show ?thesis
      by (auto simp: firstPosition_None_iff dest: firstPosition_Some_mem split: if_splits)
  next
    case none
    with Cons.prems have "findIndexes ni nj L (k + 1) (-1) (-1) = (a, b)" by (auto simp: Let_def)
    from Cons.IH [OF _ this] Cons.prems none show ?thesis by auto
  qed
qed

lemma lessByOrder_zero: "lessByOrder declared ni 0 nj 0 = declaredLess declared ni nj"
proof -
  obtain a b where ab: "findIndexes ni nj declared 0 (-1) (-1) = (a, b)" by fastforce
  from findIndexes_start [OF _ ab] show ?thesis
    by (auto simp: lessByOrder_def declaredLess_def ab split: option.splits)
qed

lemma lessByOrder_key:
  "lessByOrder declared ni oi nj oj \<longleftrightarrow> orderKey declared ni oi < orderKey declared nj oj"
proof (cases "oi = 0 \<and> oj = 0")
  case True
  then show ?thesis
    using lessByOrder_zero [of declared ni nj]
    by (auto simp: declaredLess_def orderKey_def less_prod_def
        dest: firstPosition_less split: option.splits)
next
  case False
  then show ?thesis
    by (auto simp: lessByOrder_def orderKey_def less_prod_def)
qed


section \<open>The comparator on entities of order zero\<close>

text \<open>
  C8. When both compared services (or both compared volumes) carry order zero, the
  comparator orders them by the first position of each name in the declared sequence:
  it agrees with \<open>declaredLess\<close>. In particular a name that is found sorts before one
  that is not, and a name that is not found never sorts first.
\<close>

theorem C8_order_zero_compares_declared_positions:
  "(swOrder a = 0 \<and> swOrder b = 0 \<longrightarrow>
      serviceLess declared a b = declaredLess declared (swName a) (swName b)) \<and>
   (vwOrder u = 0 \<and> vwOrder v = 0 \<longrightarrow>
      volumeLess declared u v = declaredLess declared (vwName u) (vwName v)) \<and>
   (nameI \<in> set declared \<and> nameJ \<notin> set declared \<longrightarrow>
      lessByOrder declared nameI 0 nameJ 0 \<and> \<not> lessByOrder declared nameJ 0 nameI 0) \<and>
   (nameK \<notin> set declared \<longrightarrow> \<not> lessByOrder declared nameK 0 nameL 0)"
proof -
  have found: "nameI \<in> set declared \<Longrightarrow> \<exists>i. firstPosition declared nameI = Some i"
    using firstPosition_None_iff [of declared nameI] by auto
  have missing: "\<And>n. n \<notin> set declared \<Longrightarrow> firstPosition declared n = None"
    by (simp add: firstPosition_None_iff)
  show ?thesis
    using found
    by (auto simp: serviceLess_def volumeLess_def lessByOrder_zero declaredLess_def missing)
qed

theorem C8_order_zero_witness:
  "swOrder (zeroService ''b'') = 0 \<and> swOrder (zeroService ''a'') = 0 \<and>
   \<not> serviceLess [''a'', ''b'', ''a''] (zeroService ''b'') (zeroService ''a'') \<and>
   vwOrder (zeroVolume ''a'') = 0 \<and> vwOrder (zeroVolume ''b'') = 0 \<and>
   volumeLess [''a'', ''b'', ''a''] (zeroVolume ''a'') (zeroVolume ''b'') \<and>
   ''a'' \<in> set [''a'', ''b'', ''a''] \<and> ''c'' \<notin> set [''a'', ''b'', ''a''] \<and>
   lessByOrder [''a'', ''b'', ''a''] ''a'' 0 ''c'' 0 \<and>
   \<not> lessByOrder [''a'', ''b'', ''a''] ''c'' 0 ''a'' 0 \<and>
   ''d'' \<notin> set [''a'', ''b'', ''a''] \<and>
   \<not> lessByOrder [''a'', ''b'', ''a''] ''d'' 0 ''b'' 0"
  using C8_order_zero_compares_declared_positions
    [of "zeroService ''b''" "zeroService ''a''" "[''a'', ''b'', ''a'']"
        "zeroVolume ''a''" "zeroVolume ''b''" "''a''" "''c''" "''d''" "''b''"]
  by (simp add: zeroService_def zeroVolume_def declaredLess_def)


section \<open>Runtimes\<close>

lemma runtimeOf_sort: "runtimeOf rt p \<Longrightarrow> librarySort (longSortOf rt)"
  by (simp add: runtimeOf_def)

lemma runtimeOf_listedOrder: "runtimeOf (listedOrder p) p"
  by (simp add: runtimeOf_def listedOrder_def librarySort_indexSort)

lemma runtimeOf_reversedOrder: "runtimeOf (reversedOrder p) p"
  by (simp add: runtimeOf_def reversedOrder_def librarySort_indexSort)

lemma runtimeOf_mixedOrder: "runtimeOf (mixedOrder p) p"
  by (simp add: runtimeOf_def mixedOrder_def reversedOrder_def librarySort_indexSort)

lemma runtimeOf_lengths:
  assumes "runtimeOf rt p"
  shows "length (rangeNetworkNodes rt) = length (Networks p)"
    "length (rangeServiceNodes rt) = length (Services p)"
    "length (rangeNetworkEdges rt) = length (Services p)"
    "length (rangeVolumeUsage rt) = length (Services p)"
    "length (rangeVolumeNodes rt) = length (Volumes p)"
    "length (rangeDependsEdges rt) = length (Services p)"
    "length (rangeVolumeEdges rt) = length (Services p)"
  using assms unfolding runtimeOf_def by (metis size_mset)+

lemma runtimeOf_sets:
  assumes "runtimeOf rt p"
  shows "set (rangeNetworkNodes rt) = set (Networks p)"
    "set (rangeServiceNodes rt) = set (Services p)"
    "set (rangeNetworkEdges rt) = set (Services p)"
    "set (rangeVolumeUsage rt) = set (Services p)"
    "set (rangeVolumeNodes rt) = set (Volumes p)"
    "set (rangeDependsEdges rt) = set (Services p)"
    "set (rangeVolumeEdges rt) = set (Services p)"
  using assms unfolding runtimeOf_def by (metis set_mset_mset)+

lemma mset_eq_distinct_map:
  "mset xs = mset ys \<Longrightarrow> distinct (map f ys) \<Longrightarrow> distinct (map f xs)"
proof -
  assume "mset xs = mset ys" and d: "distinct (map f ys)"
  then have "mset (map f xs) = mset (map f ys)" by simp
  then show ?thesis using d by (rule mset_eq_imp_distinct_iff [THEN iffD2])
qed

lemma short_permutation: "mset xs = mset ys \<Longrightarrow> length ys \<le> 1 \<Longrightarrow> xs = ys"
proof (cases ys)
  case Nil
  assume "mset xs = mset ys"
  then show ?thesis using Nil by simp
next
  case (Cons y rest)
  assume m: "mset xs = mset ys" and "length ys \<le> 1"
  then have "ys = [y]" using Cons by simp
  then show ?thesis using m by (simp only: mset_single_iff mset.simps)
qed

section \<open>Structure of the output\<close>

lemma Nodes_ParseToReactFlow:
  "Nodes (ParseToReactFlow now rt p o0) =
     (let options = initDefaultOptions o0;
          dimensions = calculateGraphDimensions p options;
          serviceNodes = fst (createServiceNodes rt p options dimensions)
      in createDockerComposeNode p options dimensions
           # fst (createNetworkNodes rt p options dimensions)
           @ serviceNodes
           @ createVolumeNodes rt p options dimensions
               (fst (collectVolumeUsage rt p serviceNodes))
               (snd (collectVolumeUsage rt p serviceNodes)))"
  by (simp add: ParseToReactFlow_def Let_def buildFinalGraph_def split: prod.splits)

lemma Edges_ParseToReactFlow:
  "Edges (ParseToReactFlow now rt p o0) =
     (let options = initDefaultOptions o0;
          dimensions = calculateGraphDimensions p options;
          serviceNodes = fst (createServiceNodes rt p options dimensions)
      in createNetworkToServiceEdges rt p serviceNodes
           (snd (createNetworkNodes rt p options dimensions)) dimensions
         @ createDependsOnEdges rt p (snd (createServiceNodes rt p options dimensions))
         @ createServiceToVolumeEdges rt p serviceNodes
             (fst (collectVolumeUsage rt p serviceNodes)))"
  by (simp add: ParseToReactFlow_def Let_def buildFinalGraph_def split: prod.splits)


lemma creation_time_only:
  "(ParseToReactFlow now rt p o0)\<lparr>CreatedAt := t\<rparr> = (ParseToReactFlow now' rt p o0)\<lparr>CreatedAt := t\<rparr>"
  by (simp add: ParseToReactFlow_def Let_def buildFinalGraph_def split: prod.splits)

lemma length_getSortedServices:
  "librarySort srt \<Longrightarrow> length (getSortedServices srt svcs ord) = length svcs"
  by (simp add: getSortedServices_def length_sortSlice)

lemma length_getSortedNetworks:
  "librarySort srt \<Longrightarrow> length (getSortedNetworks srt nets) = length nets"
  by (simp add: getSortedNetworks_def length_sortSlice)

lemma length_getSortedVolumes:
  "librarySort srt \<Longrightarrow> length (getSortedVolumes srt vols ord) = length vols"
  by (simp add: getSortedVolumes_def length_sortSlice)

lemma nodeType_placeUsedVolumes:
  "n \<in> set (placeUsedVolumes opts vols i lastY) \<Longrightarrow> nodeType n = ''volume''"
  by (induction vols arbitrary: i lastY) (auto simp: Let_def usedVolumeNode_def)

lemma nodeType_createVolumeNodes:
  "n \<in> set (createVolumeNodes rt p opts dims vu sp) \<Longrightarrow> nodeType n = ''volume''"
  by (auto simp: createVolumeNodes_def unusedVolumeNode_def Let_def
      dest: nodeType_placeUsedVolumes)

lemma filter_none: "(\<And>x. x \<in> set xs \<Longrightarrow> \<not> P x) \<Longrightarrow> filter P xs = []"
  by (induction xs) auto

lemma filter_volume_nodes:
  "t \<noteq> ''volume'' \<Longrightarrow>
   filter (\<lambda>n. nodeType n = t) (createVolumeNodes rt p opts dims vu sp) = []"
  by (rule filter_none) (auto dest: nodeType_createVolumeNodes)

lemma service_nodes_typed:
  "filter (\<lambda>n. nodeType n = t) (fst (createServiceNodes rt p opts dims)) =
     (if t = ''services'' then fst (createServiceNodes rt p opts dims) else [])"
  by (auto simp: createServiceNodes_def Let_def serviceNode_def filter_map comp_def
      case_prod_unfold filter_empty_conv)

lemma network_nodes_typed:
  "filter (\<lambda>n. nodeType n = t) (fst (createNetworkNodes rt p opts dims)) =
     (if t = ''network'' then fst (createNetworkNodes rt p opts dims) else [])"
  by (auto simp: createNetworkNodes_def Let_def networkNode_def filter_map comp_def
      case_prod_unfold)

lemma service_nodes_posX:
  "runtimeOf rt p \<Longrightarrow>
   map (\<lambda>n. posX (Position n)) (fst (createServiceNodes rt p opts dims)) =
     replicate (length (Services p)) (float64 (ServiceStartX dims))"
  by (simp add: createServiceNodes_def Let_def serviceNode_def comp_def case_prod_unfold
      map_replicate_const length_getSortedServices runtimeOf_sort runtimeOf_lengths)

lemma network_nodes_posX:
  "runtimeOf rt p \<Longrightarrow>
   map (\<lambda>n. posX (Position n)) (fst (createNetworkNodes rt p opts dims)) =
     replicate (length (Networks p)) (float64 (add64 (DockerComposeX dims) 20))"
  by (simp add: createNetworkNodes_def Let_def networkNode_def comp_def case_prod_unfold
      map_replicate_const length_getSortedNetworks runtimeOf_sort runtimeOf_lengths)

lemma ServiceStartX_dimensions:
  "ServiceStartX (calculateGraphDimensions p opts) = wrap64 (ColumnGap opts)"
  by (simp add: calculateGraphDimensions_def Let_def add64_def)

lemma DockerComposeX_dimensions: "DockerComposeX (calculateGraphDimensions p opts) = 0"
  by (simp add: calculateGraphDimensions_def Let_def)

lemma network_column: "float64 (add64 0 20) = 20"
  by (simp add: add64_def wrap64_def float64_def)

lemma column_gap_exact: "\<bar>c\<bar> \<le> 2 ^ 53 \<Longrightarrow> float64 (wrap64 c) = c"
  by (simp add: wrap64_id small_int64 float64_id)

lemma service_column:
  "runtimeOf rt p \<Longrightarrow>
   map (\<lambda>n. posX (Position n))
     (filter (\<lambda>n. nodeType n = ''services'') (Nodes (ParseToReactFlow now rt p options)))
   = replicate (length (Services p)) (float64 (wrap64 (ColumnGap (initDefaultOptions options))))"
  by (simp add: Nodes_ParseToReactFlow Let_def service_nodes_typed network_nodes_typed
      filter_volume_nodes service_nodes_posX ServiceStartX_dimensions
      createDockerComposeNode_def)

lemma network_column_nodes:
  "runtimeOf rt p \<Longrightarrow>
   map (\<lambda>n. posX (Position n))
     (filter (\<lambda>n. nodeType n = ''network'') (Nodes (ParseToReactFlow now rt p options)))
   = replicate (length (Networks p)) 20"
  by (simp add: Nodes_ParseToReactFlow Let_def service_nodes_typed network_nodes_typed
      filter_volume_nodes network_nodes_posX DockerComposeX_dimensions network_column
      createDockerComposeNode_def)

lemma root_column:
  "map (\<lambda>n. posX (Position n))
     (filter (\<lambda>n. nodeType n = ''compose'') (Nodes (ParseToReactFlow now rt p options)))
   = [float64 (DockerComposeStart (initDefaultOptions options))]"
  by (simp add: Nodes_ParseToReactFlow Let_def service_nodes_typed network_nodes_typed
      filter_volume_nodes createDockerComposeNode_def)

text \<open>
  C9, as the code has it. In every output the service nodes all stand at the same X
  and the network nodes all at \<open>x = 20\<close>: both columns are measured from the dimension
  calculator's own root abscissa, the constant \<open>0\<close>, and the root node itself is drawn
  elsewhere, at \<^verbatim>\<open>DockerComposeStart\<close>. The X of the service nodes is
  \<^verbatim>\<open>float64(ColumnGap)\<close>, which is \<open>columnGap\<close> itself when \<open>columnGap\<close> is at most
  \<open>2^53\<close> in magnitude, and the X of the root node is \<^verbatim>\<open>float64(DockerComposeStart)\<close>,
  which is \<open>rootColumnStartX\<close> itself under the same bound. With the default options
  the root is at \<open>-350\<close>, left of the network column, which is left of the service
  column at \<open>440\<close>.
\<close>

theorem C9_columns:
  assumes "runtimeOf rt project"
  shows
  "map (\<lambda>n. posX (Position n))
     (filter (\<lambda>n. nodeType n = ''services'') (Nodes (ParseToReactFlow now rt project options)))
     = replicate (length (Services project))
         (float64 (wrap64 (ColumnGap (initDefaultOptions options)))) \<and>
   (\<bar>ColumnGap (initDefaultOptions options)\<bar> \<le> 2 ^ 53 \<longrightarrow>
      map (\<lambda>n. posX (Position n))
        (filter (\<lambda>n. nodeType n = ''services'')
           (Nodes (ParseToReactFlow now rt project options)))
        = replicate (length (Services project)) (ColumnGap (initDefaultOptions options))) \<and>
   map (\<lambda>n. posX (Position n))
     (filter (\<lambda>n. nodeType n = ''network'') (Nodes (ParseToReactFlow now rt project options)))
     = replicate (length (Networks project)) 20 \<and>
   map (\<lambda>n. posX (Position n))
     (filter (\<lambda>n. nodeType n = ''compose'') (Nodes (ParseToReactFlow now rt project options)))
     = [float64 (DockerComposeStart (initDefaultOptions options))] \<and>
   (\<bar>DockerComposeStart (initDefaultOptions options)\<bar> \<le> 2 ^ 53 \<longrightarrow>
      map (\<lambda>n. posX (Position n))
        (filter (\<lambda>n. nodeType n = ''compose'')
           (Nodes (ParseToReactFlow now rt project options)))
        = [DockerComposeStart (initDefaultOptions options)]) \<and>
   DockerComposeStart (initDefaultOptions None) < 20 \<and>
   20 < ColumnGap (initDefaultOptions None)"
proof -
  have "DockerComposeStart (initDefaultOptions None) < 20 \<and>
        20 < ColumnGap (initDefaultOptions None)"
    by (simp add: initDefaultOptions_def)
  then show ?thesis
    unfolding service_column [OF assms] network_column_nodes [OF assms] root_column
    by (simp add: column_gap_exact float64_id)
qed

theorem C9_columns_witness:
  "runtimeOf (listedOrder networkProject) networkProject \<and>
   \<bar>ColumnGap (initDefaultOptions None)\<bar> \<le> 2 ^ 53 \<and>
   \<bar>DockerComposeStart (initDefaultOptions None)\<bar> \<le> 2 ^ 53 \<and>
   map (\<lambda>n. posX (Position n))
     (filter (\<lambda>n. nodeType n = ''services'')
        (Nodes (ParseToReactFlow 0 (listedOrder networkProject) networkProject None)))
     = [440, 440] \<and>
   map (\<lambda>n. posX (Position n))
     (filter (\<lambda>n. nodeType n = ''network'')
        (Nodes (ParseToReactFlow 0 (listedOrder networkProject) networkProject None)))
     = [20] \<and>
   map (\<lambda>n. posX (Position n))
     (filter (\<lambda>n. nodeType n = ''compose'')
        (Nodes (ParseToReactFlow 0 (listedOrder networkProject) networkProject None)))
     = [-350]"
proof -
  have r: "runtimeOf (listedOrder networkProject) networkProject"
    by (rule runtimeOf_listedOrder)
  have l: "length (Services networkProject) = Suc (Suc 0)"
    "length (Networks networkProject) = Suc 0"
    by (simp_all add: networkProject_def emptyProject_def)
  have d: "ColumnGap (initDefaultOptions None) = 440"
    "DockerComposeStart (initDefaultOptions None) = -350"
    by (simp_all add: initDefaultOptions_def)
  show ?thesis
    using C9_columns [OF r, of 0 None] r unfolding l d
    by (simp add: column_gap_exact float64_id)
qed

text \<open>
  C9 as stated fails on the default options: with one network and one service the
  service node is at \<open>440\<close>, the root node at \<open>-350\<close> and \<open>columnGap\<close> is \<open>440\<close>.
  And a column gap of \<open>2^53 + 1\<close> is not the X of the service node, which is the
  nearest float, \<open>2^53\<close>.
\<close>

theorem C9_counterexample:
  "posX (Position (hd (filter (\<lambda>n. nodeType n = ''services'')
                         (Nodes (ParseToReactFlow 0 (listedOrder scenarioC) scenarioC None)))))
     \<noteq> posX (Position (hd (filter (\<lambda>n. nodeType n = ''compose'')
                             (Nodes (ParseToReactFlow 0 (listedOrder scenarioC) scenarioC
                                       None)))))
         + ColumnGap (initDefaultOptions None) \<and>
   ColumnGap wideColumnOptions = 9007199254740993 \<and>
   map (\<lambda>n. posX (Position n))
     (filter (\<lambda>n. nodeType n = ''services'')
        (Nodes (ParseToReactFlow 0 (listedOrder scenarioC) scenarioC (Some wideColumnOptions))))
     = [9007199254740992]"
  by code_simp

lemma placeUsedVolumes_Direction:
  "placeUsedVolumes (opts\<lparr>Direction := d\<rparr>) vols i lastY = placeUsedVolumes opts vols i lastY"
  by (induction vols arbitrary: i lastY) (simp_all add: Let_def)

text \<open>
  C10. Whatever the project, the options and the runtime, the graph's layout tag is
  \<open>custom\<close> and its direction tag is \<open>LR\<close>; the direction option is never read:
  changing it in the options changes nothing in the output.
\<close>

theorem C10_fixed_tags:
  "Layout (ParseToReactFlow now rt project options) = ''custom'' \<and>
   graphDirection (ParseToReactFlow now rt project options) = ''LR'' \<and>
   ParseToReactFlow now rt project (Some (opts\<lparr>Direction := d\<rparr>))
     = ParseToReactFlow now rt project (Some opts)"
  by (simp add: ParseToReactFlow_def Let_def buildFinalGraph_def split: prod.splits)
    (simp add: initDefaultOptions_def calculateGraphDimensions_def createDockerComposeNode_def
      createNetworkNodes_def createServiceNodes_def serviceNode_def createVolumeNodes_def
      unusedVolumeNode_def placeUsedVolumes_Direction calculateViewport_def Let_def)



lemma sortedUsedVolumes_short:
  assumes "length (rangeVolumeNodes rt) \<le> 12"
  shows "sortSlice (longSortOf rt) f (usedVolumes vu sp (sortedVolumes rt p))
         = sortSlice srt f (usedVolumes vu sp (sortedVolumes rt p))"
proof (rule sortSlice_short)
  have "length (sortedVolumes rt p) = length (rangeVolumeNodes rt)"
    using assms
    by (simp add: sortedVolumes_def getSortedVolumes_def sortSlice_def insertionSort_def
        mset_sortLoop [THEN arg_cong, where f = size, simplified])
  then show "length (usedVolumes vu sp (sortedVolumes rt p)) \<le> 12"
    using assms length_filter_le [of _ "sortedVolumes rt p"]
    by (simp add: usedVolumes_def) (metis le_trans length_filter_le)
qed

lemma short_runtime:
  assumes r: "rangeNetworkNodes rt = rangeNetworkNodes rt'"
      "rangeServiceNodes rt = rangeServiceNodes rt'"
      "rangeNetworkEdges rt = rangeNetworkEdges rt'"
      "rangeVolumeUsage rt = rangeVolumeUsage rt'"
      "rangeVolumeNodes rt = rangeVolumeNodes rt'"
      "rangeDependsEdges rt = rangeDependsEdges rt'"
      "rangeVolumeEdges rt = rangeVolumeEdges rt'"
    and l: "length (rangeNetworkNodes rt) \<le> 12"
      "length (rangeServiceNodes rt) \<le> 12"
      "length (rangeNetworkEdges rt) \<le> 12"
      "length (rangeVolumeUsage rt) \<le> 12"
      "length (rangeVolumeNodes rt) \<le> 12"
      "length (rangeDependsEdges rt) \<le> 12"
      "length (rangeVolumeEdges rt) \<le> 12"
  shows "ParseToReactFlow now rt p options = ParseToReactFlow now rt' p options"
proof -
  have nn: "\<And>opts d. createNetworkNodes rt p opts d = createNetworkNodes rt' p opts d"
    using l(1) by (simp add: createNetworkNodes_def getSortedNetworks_def r sortSlice_def)
  have sn: "\<And>opts d. createServiceNodes rt p opts d = createServiceNodes rt' p opts d"
    using l(2) by (simp add: createServiceNodes_def getSortedServices_def r sortSlice_def)
  have ne: "\<And>ns m d. createNetworkToServiceEdges rt p ns m d
              = createNetworkToServiceEdges rt' p ns m d"
    using l(3) by (simp add: createNetworkToServiceEdges_def getSortedServices_def r sortSlice_def)
  have vu: "\<And>ns. collectVolumeUsage rt p ns = collectVolumeUsage rt' p ns"
    using l(4) by (simp add: collectVolumeUsage_def getSortedServices_def r sortSlice_def)
  have sv: "sortedVolumes rt p = sortedVolumes rt' p"
    using l(5) by (simp add: sortedVolumes_def getSortedVolumes_def r sortSlice_def)
  have su: "\<And>u sp. sortedUsedVolumes rt p u sp = sortedUsedVolumes rt' p u sp"
    unfolding sortedUsedVolumes_def
    using sortedUsedVolumes_short [OF l(5), of _ _ _ p "longSortOf rt'"] by (simp add: sv)
  have vn: "\<And>opts d u sp. createVolumeNodes rt p opts d u sp
              = createVolumeNodes rt' p opts d u sp"
    by (simp add: createVolumeNodes_def su sv)
  have de: "\<And>m. createDependsOnEdges rt p m = createDependsOnEdges rt' p m"
    using l(6) by (simp add: createDependsOnEdges_def getSortedServices_def r sortSlice_def)
  have ve: "\<And>ns u. createServiceToVolumeEdges rt p ns u = createServiceToVolumeEdges rt' p ns u"
    using l(7) by (simp add: createServiceToVolumeEdges_def getSortedServices_def r sortSlice_def)
  show ?thesis
    by (simp add: ParseToReactFlow_def nn sn ne vu vn de ve)
qed

lemma single_entry_runtime:
  assumes rt: "runtimeOf rt p"
    and one: "length (Services p) \<le> 1" "length (Networks p) \<le> 1" "length (Volumes p) \<le> 1"
  shows "ParseToReactFlow now rt p options = ParseToReactFlow now (listedOrder p) p options"
proof (rule short_runtime)
  show "rangeNetworkNodes rt = rangeNetworkNodes (listedOrder p)"
    using rt one by (simp add: runtimeOf_def listedOrder_def short_permutation)
  show "rangeServiceNodes rt = rangeServiceNodes (listedOrder p)"
    using rt one by (simp add: runtimeOf_def listedOrder_def short_permutation)
  show "rangeNetworkEdges rt = rangeNetworkEdges (listedOrder p)"
    using rt one by (simp add: runtimeOf_def listedOrder_def short_permutation)
  show "rangeVolumeUsage rt = rangeVolumeUsage (listedOrder p)"
    using rt one by (simp add: runtimeOf_def listedOrder_def short_permutation)
  show "rangeVolumeNodes rt = rangeVolumeNodes (listedOrder p)"
    using rt one by (simp add: runtimeOf_def listedOrder_def short_permutation)
  show "rangeDependsEdges rt = rangeDependsEdges (listedOrder p)"
    using rt one by (simp add: runtimeOf_def listedOrder_def short_permutation)
  show "rangeVolumeEdges rt = rangeVolumeEdges (listedOrder p)"
    using rt one by (simp add: runtimeOf_def listedOrder_def short_permutation)
  show "length (rangeNetworkNodes rt) \<le> 12" "length (rangeServiceNodes rt) \<le> 12"
    "length (rangeNetworkEdges rt) \<le> 12" "length (rangeVolumeUsage rt) \<le> 12"
    "length (rangeVolumeNodes rt) \<le> 12" "length (rangeDependsEdges rt) \<le> 12"
    "length (rangeVolumeEdges rt) \<le> 12"
    using one by (simp_all add: runtimeOf_lengths [OF rt])
qed

lemma edges_any_time:
  "Edges (ParseToReactFlow now rt p options) = Edges (ParseToReactFlow 0 rt p options)"
  by (simp add: Edges_ParseToReactFlow)

lemma nodes_any_time:
  "Nodes (ParseToReactFlow now rt p options) = Nodes (ParseToReactFlow 0 rt p options)"
  by (simp add: Nodes_ParseToReactFlow)

lemma ghost_layout:
  "map (\<lambda>e. (Source e, Target e))
     (Edges (ParseToReactFlow 0 (listedOrder ghostVolumeProject) ghostVolumeProject None)) =
     [(''docker-compose'', ''services-web''), (''services-web'', ''volume-ghost'')] \<and>
   map nodeID
     (Nodes (ParseToReactFlow 0 (listedOrder ghostVolumeProject) ghostVolumeProject None)) =
     [''docker-compose'', ''services-web'']"
  by code_simp

lemma scenarioC_layout:
  "map (\<lambda>e. (Source e, Target e))
     (Edges (ParseToReactFlow 0 (listedOrder scenarioC) scenarioC None)) =
     [(''network-front'', ''services-web'')] \<and>
   map nodeID (Nodes (ParseToReactFlow 0 (listedOrder scenarioC) scenarioC None)) =
     [''docker-compose'', ''network-front'', ''services-web'']"
  by code_simp

lemma unusedVolume_layout:
  "Edges (ParseToReactFlow 0 (listedOrder unusedVolumeProject) unusedVolumeProject None) = [] \<and>
   map nodeID
     (Nodes (ParseToReactFlow 0 (listedOrder unusedVolumeProject) unusedVolumeProject None)) =
     [''docker-compose'', ''volume-data'']"
  by code_simp

text \<open>
  C1 at a project whose only service mounts a named volume \<open>ghost\<close> that the project
  does not declare: whatever the runtime, the output has an edge from the service to
  \<open>volume-ghost\<close>, and no node of that id.
\<close>

theorem C1_dangling_volume_edge:
  assumes "runtimeOf rt ghostVolumeProject"
  shows "map (\<lambda>e. (Source e, Target e))
           (Edges (ParseToReactFlow now rt ghostVolumeProject None)) =
           [(''docker-compose'', ''services-web''), (''services-web'', ''volume-ghost'')] \<and>
         map nodeID (Nodes (ParseToReactFlow now rt ghostVolumeProject None)) =
           [''docker-compose'', ''services-web'']"
proof -
  have "ParseToReactFlow now rt ghostVolumeProject None
        = ParseToReactFlow now (listedOrder ghostVolumeProject) ghostVolumeProject None"
    by (rule single_entry_runtime [OF assms])
      (simp_all add: ghostVolumeProject_def emptyProject_def)
  then show ?thesis
    using ghost_layout
    by (simp add: edges_any_time [of now] nodes_any_time [of now])
qed

theorem C1_dangling_volume_edge_witness:
  "runtimeOf (listedOrder ghostVolumeProject) ghostVolumeProject \<and>
   map (\<lambda>e. (Source e, Target e))
     (Edges (ParseToReactFlow 0 (listedOrder ghostVolumeProject) ghostVolumeProject None)) =
     [(''docker-compose'', ''services-web''), (''services-web'', ''volume-ghost'')] \<and>
   map nodeID
     (Nodes (ParseToReactFlow 0 (listedOrder ghostVolumeProject) ghostVolumeProject None)) =
     [''docker-compose'', ''services-web'']"
  using C1_dangling_volume_edge [OF runtimeOf_listedOrder [of ghostVolumeProject], of 0]
    runtimeOf_listedOrder [of ghostVolumeProject]
  by simp

text \<open>
  C3 at the project with one network \<open>front\<close> and one service that is a member of it:
  whatever the runtime, three nodes, and the single edge from the network to the
  service; no edge leaves the root for the network.
\<close>

theorem C3_no_root_network_edge:
  assumes "runtimeOf rt scenarioC"
  shows "map (\<lambda>e. (Source e, Target e)) (Edges (ParseToReactFlow now rt scenarioC None)) =
           [(''network-front'', ''services-web'')] \<and>
         map nodeID (Nodes (ParseToReactFlow now rt scenarioC None)) =
           [''docker-compose'', ''network-front'', ''services-web'']"
proof -
  have "ParseToReactFlow now rt scenarioC None
        = ParseToReactFlow now (listedOrder scenarioC) scenarioC None"
    by (rule single_entry_runtime [OF assms])
      (simp_all add: scenarioC_def emptyProject_def)
  then show ?thesis
    using scenarioC_layout
    by (simp add: edges_any_time [of now] nodes_any_time [of now])
qed

theorem C3_no_root_network_edge_witness:
  "runtimeOf (listedOrder scenarioC) scenarioC \<and>
   map (\<lambda>e. (Source e, Target e))
     (Edges (ParseToReactFlow 0 (listedOrder scenarioC) scenarioC None)) =
     [(''network-front'', ''services-web'')] \<and>
   map nodeID (Nodes (ParseToReactFlow 0 (listedOrder scenarioC) scenarioC None)) =
     [''docker-compose'', ''network-front'', ''services-web'']"
  using C3_no_root_network_edge [OF runtimeOf_listedOrder [of scenarioC], of 0]
    runtimeOf_listedOrder [of scenarioC]
  by simp

text \<open>
  C4 at a project that declares one volume and no service: whatever the runtime, the
  volume node is there, and the edge list is empty.
\<close>

theorem C4_no_unused_volume_edge:
  assumes "runtimeOf rt unusedVolumeProject"
  shows "Edges (ParseToReactFlow now rt unusedVolumeProject None) = [] \<and>
         map nodeID (Nodes (ParseToReactFlow now rt unusedVolumeProject None)) =
           [''docker-compose'', ''volume-data'']"
proof -
  have "ParseToReactFlow now rt unusedVolumeProject None
        = ParseToReactFlow now (listedOrder unusedVolumeProject) unusedVolumeProject None"
    by (rule single_entry_runtime [OF assms])
      (simp_all add: unusedVolumeProject_def emptyProject_def)
  then show ?thesis
    using unusedVolume_layout
    by (simp add: edges_any_time [of now] nodes_any_time [of now])
qed

theorem C4_no_unused_volume_edge_witness:
  "runtimeOf (listedOrder unusedVolumeProject) unusedVolumeProject \<and>
   Edges (ParseToReactFlow 0 (listedOrder unusedVolumeProject) unusedVolumeProject None) = [] \<and>
   map nodeID
     (Nodes (ParseToReactFlow 0 (listedOrder unusedVolumeProject) unusedVolumeProject None)) =
     [''docker-compose'', ''volume-data'']"
  using C4_no_unused_volume_edge [OF runtimeOf_listedOrder [of unusedVolumeProject], of 0]
    runtimeOf_listedOrder [of unusedVolumeProject]
  by simp

section \<open>Edges of the network phase\<close>

lemma networkEdgesOfService_eq:
  "networkEdgesOfService m s nets (edges, c, has) =
     (edges @ map (\<lambda>n. networkServiceEdge n s (the (m n)) (''services-'' @ s))
                (filter (\<lambda>n. m n \<noteq> None) nets),
      c + int (length (filter (\<lambda>n. m n \<noteq> None) nets)),
      has \<or> filter (\<lambda>n. m n \<noteq> None) nets \<noteq> [])"
  by (induction nets arbitrary: edges c has) (auto split: option.splits)

lemma networkToServiceLoop_ends:
  "map edgeEnds (fst (networkToServiceLoop m items (edges, c))) =
     map edgeEnds edges @ concat (map (perService m) items)"
  by (induction items arbitrary: edges c)
    (auto simp: networkEdgesOfService_eq perService_def Let_def edgeEnds_def
      networkServiceEdge_def composeServiceEdge_def comp_def)

lemma dependsEdgesOfService_sources:
  "\<forall>e \<in> set edges. take 9 (Source e) = ''services-'' \<Longrightarrow>
   \<forall>e \<in> set (fst (dependsEdgesOfService m (''services-'' @ name) deps (edges, c))).
     take 9 (Source e) = ''services-''"
proof (induction deps arbitrary: edges c)
  case Nil
  then show ?case by simp
next
  case (Cons d deps)
  show ?case
  proof (cases "m d")
    case None
    with Cons show ?thesis by simp
  next
    case (Some t)
    have "\<forall>e \<in> set (edges @ [dependsEdge (c + 1) (''services-'' @ name) t]).
            take 9 (Source e) = ''services-''"
      using Cons.prems by (auto simp: dependsEdge_def)
    from Cons.IH [OF this] Some show ?thesis by simp
  qed
qed

lemma dependsLoop_sources:
  "\<forall>e \<in> set (fst st). take 9 (Source e) = ''services-'' \<Longrightarrow>
   \<forall>e \<in> set (fst (foldl (\<lambda>st item.
              dependsEdgesOfService m (''services-'' @ swName item)
                (svcDependsOn (service item)) st) st items)).
     take 9 (Source e) = ''services-''"
proof (induction items arbitrary: st)
  case Nil
  then show ?case by simp
next
  case (Cons item items)
  obtain edges c where st: "st = (edges, c)" by (cases st)
  have "\<forall>e \<in> set (fst (dependsEdgesOfService m (''services-'' @ swName item)
            (svcDependsOn (service item)) st)). take 9 (Source e) = ''services-''"
    unfolding st using Cons.prems st by (intro dependsEdgesOfService_sources) simp
  from Cons.IH [OF this] show ?case by simp
qed

lemma createDependsOnEdges_sources:
  "e \<in> set (createDependsOnEdges rt p m) \<Longrightarrow> take 9 (Source e) = ''services-''"
  using dependsLoop_sources [of "([], 0)" m] by (auto simp: createDependsOnEdges_def)

lemma volumeEdgesOfService_sources:
  "\<forall>e \<in> set edges. take 9 (Source e) = ''services-'' \<Longrightarrow>
   \<forall>e \<in> set (fst (volumeEdgesOfService ns vu (''services-'' @ name) mounts (edges, c))).
     take 9 (Source e) = ''services-''"
proof (induction mounts arbitrary: edges c)
  case Nil
  then show ?case by simp
next
  case (Cons mnt mounts)
  show ?case
  proof (cases "mountType mnt = ''volume'' \<and> mountSource mnt \<noteq> [] \<and> volumeExists ns vu mnt")
    case False
    with Cons show ?thesis by auto
  next
    case True
    have "\<forall>e \<in> set (edges @ [serviceVolumeEdge (c + 1) (''services-'' @ name)
                                 (''volume-'' @ mountSource mnt)]).
            take 9 (Source e) = ''services-''"
      using Cons.prems by (auto simp: serviceVolumeEdge_def)
    from Cons.IH [OF this] True show ?thesis by simp
  qed
qed

lemma volumeLoop_sources:
  "\<forall>e \<in> set (fst st). take 9 (Source e) = ''services-'' \<Longrightarrow>
   \<forall>e \<in> set (fst (foldl (\<lambda>st item.
              volumeEdgesOfService ns vu (''services-'' @ swName item)
                (svcVolumes (service item)) st) st items)).
     take 9 (Source e) = ''services-''"
proof (induction items arbitrary: st)
  case Nil
  then show ?case by simp
next
  case (Cons item items)
  obtain edges c where st: "st = (edges, c)" by (cases st)
  have "\<forall>e \<in> set (fst (volumeEdgesOfService ns vu (''services-'' @ swName item)
            (svcVolumes (service item)) st)). take 9 (Source e) = ''services-''"
    unfolding st using Cons.prems st by (intro volumeEdgesOfService_sources) simp
  from Cons.IH [OF this] show ?case by simp
qed

lemma createServiceToVolumeEdges_sources:
  "e \<in> set (createServiceToVolumeEdges rt p ns vu) \<Longrightarrow> take 9 (Source e) = ''services-''"
  using volumeLoop_sources [of "([], 0)" ns vu] by (auto simp: createServiceToVolumeEdges_def)

lemma map_of_keyed:
  "map_of (map (\<lambda>x. (f x, g (f x))) xs) k = (if k \<in> f ` set xs then Some (g k) else None)"
  by (induction xs) auto

lemma networkNodeMap_eq:
  assumes "runtimeOf rt p"
  shows "snd (createNetworkNodes rt p opts dims) n =
     (if n \<in> set (map fst (Networks p)) then Some (''network-'' @ n) else None)"
proof -
  let ?sorted = "getSortedNetworks (longSortOf rt) (rangeNetworkNodes rt)"
  have "nwName ` set ?sorted = fst ` set (rangeNetworkNodes rt)"
    by (force simp: getSortedNetworks_def set_sortSlice [OF runtimeOf_sort [OF assms]] image_iff)
  then have "nwName ` set ?sorted = fst ` set (Networks p)"
    by (simp add: runtimeOf_sets [OF assms])
  then show ?thesis
    using map_of_keyed [of nwName "\<lambda>k. ''network-'' @ k" ?sorted n]
    by (simp add: createNetworkNodes_def Let_def)
qed

lemma filter_named_entry:
  "distinct (map fst svcs) \<Longrightarrow> (s, svc) \<in> set svcs \<Longrightarrow>
   filter (\<lambda>item. swName item = s)
     (map (\<lambda>(serviceName, svc).
             \<lparr>swName = serviceName, swOrder = svcOrder svc, service = svc\<rparr>) svcs)
   = [\<lparr>swName = s, swOrder = svcOrder svc, service = svc\<rparr>]"
proof (induction svcs)
  case Nil
  then show ?case by simp
next
  case (Cons x svcs)
  obtain n c where x: "x = (n, c)" by (cases x)
  show ?case
  proof (cases "n = s")
    case True
    with Cons.prems x have c: "c = svc" by (auto simp: image_iff)
    have "filter (\<lambda>item. swName item = s)
            (map (\<lambda>(serviceName, svc).
               \<lparr>swName = serviceName, swOrder = svcOrder svc, service = svc\<rparr>) svcs) = []"
      using Cons.prems x True by (auto simp: filter_empty_conv image_iff)
    with True x c show ?thesis by simp
  next
    case False
    with Cons x show ?thesis by auto
  qed
qed

lemma sorted_service_named:
  assumes "librarySort srt" "distinct (map fst svcs)" "(s, svc) \<in> set svcs"
  shows "filter (\<lambda>item. swName item = s) (getSortedServices srt svcs ord)
         = [\<lparr>swName = s, swOrder = svcOrder svc, service = svc\<rparr>]"
proof -
  let ?mk = "\<lambda>(serviceName, svc). \<lparr>swName = serviceName, swOrder = svcOrder svc, service = svc\<rparr>"
  have "mset (filter (\<lambda>item. swName item = s) (getSortedServices srt svcs ord))
        = mset (filter (\<lambda>item. swName item = s) (map ?mk svcs))"
    by (simp add: getSortedServices_def mset_sortSlice [OF assms(1)] del: mset_map)
  also have "\<dots> = {#\<lparr>swName = s, swOrder = svcOrder svc, service = svc\<rparr>#}"
    using filter_named_entry [OF assms(2,3)] by simp
  finally have "mset (filter (\<lambda>item. swName item = s) (getSortedServices srt svcs ord))
      = {#\<lparr>swName = s, swOrder = svcOrder svc, service = svc\<rparr>#}" .
  then show ?thesis by (simp only: mset_single_iff)
qed

lemma perService_targets:
  "filter (\<lambda>(src, tgt). tgt = t) (perService m item)
   = (if ''services-'' @ swName item = t then perService m item else [])"
  by (auto simp: perService_def Let_def filter_empty_conv filter_id_conv)

lemma concat_perService_target:
  "filter (\<lambda>(src, tgt). tgt = t) (concat (map (perService m) items))
   = concat (map (perService m) (filter (\<lambda>item. ''services-'' @ swName item = t) items))"
  by (induction items) (simp_all add: perService_targets)

lemma network_edges_ends:
  "map edgeEnds (createNetworkToServiceEdges rt p ns m dims) =
     concat (map (perService m)
               (getSortedServices (longSortOf rt) (rangeNetworkEdges rt) (ServiceOrder p)))"
  using networkToServiceLoop_ends [of m _ "[]" 0]
  by (simp add: createNetworkToServiceEdges_def)

lemma network_edges_of_service:
  assumes "runtimeOf rt p" "distinct (map fst (Services p))" "(s, svc) \<in> set (Services p)"
  shows "filter (\<lambda>(src, tgt). tgt = ''services-'' @ s)
           (map edgeEnds (createNetworkToServiceEdges rt p ns m dims))
         = perService m \<lparr>swName = s, swOrder = svcOrder svc, service = svc\<rparr>"
proof -
  have e: "mset (rangeNetworkEdges rt) = mset (Services p)"
    using assms(1) by (simp add: runtimeOf_def)
  have d: "distinct (map fst (rangeNetworkEdges rt))"
    by (rule mset_eq_distinct_map [OF e assms(2)])
  have m: "(s, svc) \<in> set (rangeNetworkEdges rt)"
    using assms(3) by (simp add: runtimeOf_sets [OF assms(1)])
  show ?thesis
    by (simp add: network_edges_ends concat_perService_target
        sorted_service_named [OF runtimeOf_sort [OF assms(1)] d m])
qed

lemma resolvable_eq:
  "runtimeOf rt p \<Longrightarrow>
   filter (\<lambda>n. snd (createNetworkNodes rt p opts dims) n \<noteq> None) (svcNetworks svc)
   = resolvableNetworks p svc"
  by (simp add: resolvableNetworks_def networkNodeMap_eq cong: filter_cong)

lemma perService_resolved:
  assumes rt: "runtimeOf rt p"
  shows "perService (snd (createNetworkNodes rt p opts dims))
           \<lparr>swName = s, swOrder = ord, service = svc\<rparr>
   = (if resolvableNetworks p svc = [] then [(''docker-compose'', ''services-'' @ s)]
      else map (\<lambda>n. (''network-'' @ n, ''services-'' @ s)) (resolvableNetworks p svc))"
proof -
  have "\<And>n. n \<in> set (resolvableNetworks p svc) \<Longrightarrow>
          the (snd (createNetworkNodes rt p opts dims) n) = ''network-'' @ n"
    by (auto simp: resolvableNetworks_def networkNodeMap_eq [OF rt])
  then have "map (\<lambda>n. (the (snd (createNetworkNodes rt p opts dims) n), ''services-'' @ s))
               (resolvableNetworks p svc)
             = map (\<lambda>n. (''network-'' @ n, ''services-'' @ s)) (resolvableNetworks p svc)"
    by (intro map_cong) auto
  then show ?thesis
    by (simp only: perService_def Let_def serviceWithOrder.simps resolvable_eq [OF rt])
qed

lemma filter_ends:
  "map edgeEnds (filter (\<lambda>e. P (Source e) \<and> Target e = t) es)
   = filter (\<lambda>(src, tgt). P src) (filter (\<lambda>(src, tgt). tgt = t) (map edgeEnds es))"
  by (induction es) (auto simp: edgeEnds_def)

lemma no_services_source:
  assumes "\<And>e. e \<in> set es \<Longrightarrow> take 9 (Source e) = ''services-''"
  shows "fallbackEdgesOf s es = []" "networkEdgesOf s es = []"
proof -
  have "\<And>e. e \<in> set es \<Longrightarrow> Source e \<noteq> ''docker-compose'' \<and> take 8 (Source e) \<noteq> ''network-''"
  proof -
    fix e assume "e \<in> set es"
    then have t: "take 9 (Source e) = ''services-''" by (rule assms)
    have "Source e \<noteq> ''docker-compose''" using t by auto
    moreover have "take 8 (Source e) \<noteq> ''network-''"
    proof
      assume "take 8 (Source e) = ''network-''"
      then have "take 1 (take 8 (Source e)) = ''n''" by simp
      moreover have "take 1 (take 9 (Source e)) = ''s''" using t by simp
      ultimately show False by (simp add: min_def)
    qed
    ultimately show "Source e \<noteq> ''docker-compose'' \<and> take 8 (Source e) \<noteq> ''network-''" by simp
  qed
  then show "fallbackEdgesOf s es = []" "networkEdgesOf s es = []"
    by (auto simp: fallbackEdgesOf_def networkEdgesOf_def filter_empty_conv)
qed

lemma fallback_count_network_phase:
  assumes "runtimeOf rt p" "distinct (map fst (Services p))" "(s, svc) \<in> set (Services p)"
  shows "length (fallbackEdgesOf s
           (createNetworkToServiceEdges rt p ns (snd (createNetworkNodes rt p opts dims)) dims'))
         = (if resolvableNetworks p svc = [] then 1 else 0)"
proof -
  let ?m = "snd (createNetworkNodes rt p opts dims)"
  let ?NE = "createNetworkToServiceEdges rt p ns ?m dims'"
  let ?item = "\<lparr>swName = s, swOrder = svcOrder svc, service = svc\<rparr>"
  have "map edgeEnds (fallbackEdgesOf s ?NE)
        = filter (\<lambda>(src, tgt). src = ''docker-compose'')
            (filter (\<lambda>(src, tgt). tgt = ''services-'' @ s) (map edgeEnds ?NE))"
    unfolding fallbackEdgesOf_def by (rule filter_ends)
  also have "\<dots> = filter (\<lambda>(src, tgt). src = ''docker-compose'') (perService ?m ?item)"
    by (simp only: network_edges_of_service [OF assms])
  finally have "length (fallbackEdgesOf s ?NE)
        = length (filter (\<lambda>(src, tgt). src = ''docker-compose'') (perService ?m ?item))"
    by (metis length_map)
  also have "\<dots> = (if resolvableNetworks p svc = [] then 1 else 0)"
    by (simp add: perService_resolved [OF assms(1)] filter_map comp_def filter_empty_conv)
  finally show ?thesis .
qed

lemma network_count_network_phase:
  assumes "runtimeOf rt p" "distinct (map fst (Services p))" "(s, svc) \<in> set (Services p)"
  shows "length (networkEdgesOf s
           (createNetworkToServiceEdges rt p ns (snd (createNetworkNodes rt p opts dims)) dims'))
         = length (resolvableNetworks p svc)"
proof -
  let ?m = "snd (createNetworkNodes rt p opts dims)"
  let ?NE = "createNetworkToServiceEdges rt p ns ?m dims'"
  let ?item = "\<lparr>swName = s, swOrder = svcOrder svc, service = svc\<rparr>"
  have "map edgeEnds (networkEdgesOf s ?NE)
        = filter (\<lambda>(src, tgt). take 8 src = ''network-'')
            (filter (\<lambda>(src, tgt). tgt = ''services-'' @ s) (map edgeEnds ?NE))"
    unfolding networkEdgesOf_def by (rule filter_ends)
  also have "\<dots> = filter (\<lambda>(src, tgt). take 8 src = ''network-'') (perService ?m ?item)"
    by (simp only: network_edges_of_service [OF assms])
  finally have "length (networkEdgesOf s ?NE)
        = length (filter (\<lambda>(src, tgt). take 8 src = ''network-'') (perService ?m ?item))"
    by (metis length_map)
  also have "\<dots> = length (resolvableNetworks p svc)"
    by (simp add: perService_resolved [OF assms(1)] filter_map comp_def filter_id_conv)
  finally show ?thesis .
qed

text \<open>
  C6. For a service of the project, whatever the runtime: when none of its network
  memberships names a declared network, the output has exactly one edge from the root
  to the service's node and no edge from a network node to it; when at least one does,
  the output has no edge from the root to the service's node (and one network edge for
  each such membership).
\<close>

theorem C6_fallback_edges:
  assumes "runtimeOf rt project"
    and "distinct (map fst (Services project))"
    and "(serviceName, svc) \<in> set (Services project)"
  shows "(resolvableNetworks project svc = [] \<longrightarrow>
            length (fallbackEdgesOf serviceName
                      (Edges (ParseToReactFlow now rt project options))) = 1 \<and>
            networkEdgesOf serviceName (Edges (ParseToReactFlow now rt project options)) = []) \<and>
         (resolvableNetworks project svc \<noteq> [] \<longrightarrow>
            fallbackEdgesOf serviceName (Edges (ParseToReactFlow now rt project options)) = [] \<and>
            length (networkEdgesOf serviceName
                      (Edges (ParseToReactFlow now rt project options)))
              = length (resolvableNetworks project svc))"
proof -
  let ?o = "initDefaultOptions options"
  let ?d = "calculateGraphDimensions project ?o"
  let ?ns = "fst (createServiceNodes rt project ?o ?d)"
  let ?NE = "createNetworkToServiceEdges rt project ?ns
               (snd (createNetworkNodes rt project ?o ?d)) ?d"
  let ?DE = "createDependsOnEdges rt project (snd (createServiceNodes rt project ?o ?d))"
  let ?VE = "createServiceToVolumeEdges rt project ?ns
               (fst (collectVolumeUsage rt project ?ns))"
  have E: "Edges (ParseToReactFlow now rt project options) = ?NE @ ?DE @ ?VE"
    by (simp add: Edges_ParseToReactFlow Let_def)
  have D: "fallbackEdgesOf serviceName ?DE = []" "networkEdgesOf serviceName ?DE = []"
    by (rule no_services_source, erule createDependsOnEdges_sources)+
  have V: "fallbackEdgesOf serviceName ?VE = []" "networkEdgesOf serviceName ?VE = []"
    by (rule no_services_source, erule createServiceToVolumeEdges_sources)+
  have F: "fallbackEdgesOf serviceName (?NE @ ?DE @ ?VE) = fallbackEdgesOf serviceName ?NE"
    using D(1) V(1) by (simp add: fallbackEdgesOf_def)
  have N: "networkEdgesOf serviceName (?NE @ ?DE @ ?VE) = networkEdgesOf serviceName ?NE"
    using D(2) V(2) by (simp add: networkEdgesOf_def)
  show ?thesis
    unfolding E F N
    using fallback_count_network_phase [OF assms, of ?ns ?o ?d ?d]
      network_count_network_phase [OF assms, of ?ns ?o ?d ?d]
    by auto
qed

theorem C6_fallback_edges_witness:
  "runtimeOf (reversedOrder networkProject) networkProject \<and>
   distinct (map fst (Services networkProject)) \<and>
   (''web'', webService) \<in> set (Services networkProject) \<and>
   resolvableNetworks networkProject webService \<noteq> [] \<and>
   fallbackEdgesOf ''web''
     (Edges (ParseToReactFlow 0 (reversedOrder networkProject) networkProject None)) = [] \<and>
   (''db'', dbService) \<in> set (Services networkProject) \<and>
   resolvableNetworks networkProject dbService = [] \<and>
   length (fallbackEdgesOf ''db''
             (Edges (ParseToReactFlow 0 (reversedOrder networkProject) networkProject None)))
     = 1 \<and>
   networkEdgesOf ''db''
     (Edges (ParseToReactFlow 0 (reversedOrder networkProject) networkProject None)) = []"
proof -
  have r: "runtimeOf (reversedOrder networkProject) networkProject"
    by (rule runtimeOf_reversedOrder)
  have d: "distinct (map fst (Services networkProject))"
    by (simp add: networkProject_def emptyProject_def)
  have w: "(''web'', webService) \<in> set (Services networkProject)"
    by (simp add: networkProject_def emptyProject_def)
  have b: "(''db'', dbService) \<in> set (Services networkProject)"
    by (simp add: networkProject_def emptyProject_def)
  have rw: "resolvableNetworks networkProject webService \<noteq> []"
    by (simp add: resolvableNetworks_def networkProject_def emptyProject_def webService_def
        emptyService_def)
  have rb: "resolvableNetworks networkProject dbService = []"
    by (simp add: resolvableNetworks_def networkProject_def emptyProject_def dbService_def
        emptyService_def)
  show ?thesis
    using C6_fallback_edges [OF r d w, of 0 None] C6_fallback_edges [OF r d b, of 0 None]
      r d w b rw rb
    by simp
qed

section \<open>Reproducibility and edge identifiers\<close>

lemma sorted_entries_unique:
  fixes key :: "'b \<Rightarrow> 'k::linorder"
  assumes la: "librarySort srt'" and lb: "librarySort srt"
    and f: "\<And>a b. f a b \<longleftrightarrow> key a < key b"
    and m: "mset xs' = mset xs"
    and d: "distinct (map (\<lambda>e. key (mk e)) xs)"
  shows "sortSlice srt' f (map mk xs') = sortSlice srt f (map mk xs)"
proof (rule sortSlice_unique [where key = key, OF la lb f])
  show "mset (map mk xs') = mset (map mk xs)" using m by simp
  have "mset (map (\<lambda>e. key (mk e)) xs') = mset (map (\<lambda>e. key (mk e)) xs)"
    using m by simp
  then have "distinct (map (\<lambda>e. key (mk e)) xs')"
    using d by (rule mset_eq_imp_distinct_iff [THEN iffD2])
  then show "distinct (map key (map mk xs'))" by (simp add: comp_def)
qed

lemma getSortedServices_unique:
  assumes "librarySort srt'" and "librarySort srt"
    and "mset svcs' = mset svcs"
    and "distinct (map (\<lambda>entry. orderKey ord (fst entry) (svcOrder (snd entry))) svcs)"
  shows "getSortedServices srt' svcs' ord = getSortedServices srt svcs ord"
  unfolding getSortedServices_def
proof (rule sorted_entries_unique
    [where key = "\<lambda>item. orderKey ord (swName item) (swOrder item)", OF assms(1,2)])
  show "\<And>a b. serviceLess ord a b
          \<longleftrightarrow> orderKey ord (swName a) (swOrder a) < orderKey ord (swName b) (swOrder b)"
    by (simp add: serviceLess_def lessByOrder_key)
  show "mset svcs' = mset svcs" by (rule assms(3))
  show "distinct (map (\<lambda>e. orderKey ord
            (swName (case e of (serviceName, svc) \<Rightarrow>
               \<lparr>swName = serviceName, swOrder = svcOrder svc, service = svc\<rparr>))
            (swOrder (case e of (serviceName, svc) \<Rightarrow>
               \<lparr>swName = serviceName, swOrder = svcOrder svc, service = svc\<rparr>))) svcs)"
    using assms(4) by (simp add: case_prod_unfold)
qed

lemma getSortedVolumes_unique:
  assumes "librarySort srt'" and "librarySort srt"
    and "mset vols' = mset vols"
    and "distinct (map (\<lambda>entry. orderKey ord (fst entry) (volOrder (snd entry))) vols)"
  shows "getSortedVolumes srt' vols' ord = getSortedVolumes srt vols ord"
  unfolding getSortedVolumes_def
proof (rule sorted_entries_unique
    [where key = "\<lambda>item. orderKey ord (vwName item) (vwOrder item)", OF assms(1,2)])
  show "\<And>a b. volumeLess ord a b
          \<longleftrightarrow> orderKey ord (vwName a) (vwOrder a) < orderKey ord (vwName b) (vwOrder b)"
    by (simp add: volumeLess_def lessByOrder_key)
  show "mset vols' = mset vols" by (rule assms(3))
  show "distinct (map (\<lambda>e. orderKey ord
            (vwName (case e of (volumeName, vol) \<Rightarrow>
               \<lparr>vwName = volumeName, vwOrder = volOrder vol, volume = vol\<rparr>))
            (vwOrder (case e of (volumeName, vol) \<Rightarrow>
               \<lparr>vwName = volumeName, vwOrder = volOrder vol, volume = vol\<rparr>))) vols)"
    using assms(4) by (simp add: case_prod_unfold)
qed

lemma getSortedNetworks_unique:
  assumes "librarySort srt'" and "librarySort srt"
    and "mset nets' = mset nets" and "distinct (map fst nets)"
  shows "getSortedNetworks srt' nets' = getSortedNetworks srt nets"
  unfolding getSortedNetworks_def
proof (rule sorted_entries_unique [where key = nwName, OF assms(1,2)])
  show "\<And>a b. nwName a < nwName b \<longleftrightarrow> nwName a < nwName b" by simp
  show "mset nets' = mset nets" by (rule assms(3))
  show "distinct (map (\<lambda>e. nwName (case e of (networkName, net) \<Rightarrow>
                                       \<lparr>nwName = networkName, network = net\<rparr>)) nets)"
    using assms(4) by (simp add: case_prod_unfold)
qed

lemma sorted_services_of_runtime:
  assumes rt: "runtimeOf rt p"
    and m: "mset svcs = mset (Services p)"
    and ds: "distinct (map (serviceKey p) (Services p))"
  shows "getSortedServices (longSortOf rt) svcs (ServiceOrder p)
         = getSortedServices indexSort (Services p) (ServiceOrder p)"
  using getSortedServices_unique [OF runtimeOf_sort [OF rt] librarySort_indexSort m,
      of "ServiceOrder p"] ds
  by (simp add: serviceKey_def [abs_def])

lemma two_runtimes:
  assumes a: "runtimeOf rt project" and b: "runtimeOf rt' project"
    and srt: "longSortOf rt' = longSortOf rt"
    and dn: "distinct (map fst (Networks project))"
    and ds: "distinct (map (serviceKey project) (Services project))"
    and dv: "distinct (map (volumeKey project) (Volumes project))"
  shows "(ParseToReactFlow now' rt' project options)\<lparr>CreatedAt := 0\<rparr>
         = (ParseToReactFlow now rt project options)\<lparr>CreatedAt := 0\<rparr>"
proof -
  have ma: "mset (rangeServiceNodes rt) = mset (Services project)"
    "mset (rangeNetworkEdges rt) = mset (Services project)"
    "mset (rangeVolumeUsage rt) = mset (Services project)"
    "mset (rangeDependsEdges rt) = mset (Services project)"
    "mset (rangeVolumeEdges rt) = mset (Services project)"
    using a by (simp_all add: runtimeOf_def)
  have mb: "mset (rangeServiceNodes rt') = mset (Services project)"
    "mset (rangeNetworkEdges rt') = mset (Services project)"
    "mset (rangeVolumeUsage rt') = mset (Services project)"
    "mset (rangeDependsEdges rt') = mset (Services project)"
    "mset (rangeVolumeEdges rt') = mset (Services project)"
    using b by (simp_all add: runtimeOf_def)
  note S = sorted_services_of_runtime [OF a ma(1) ds] sorted_services_of_runtime [OF a ma(2) ds]
    sorted_services_of_runtime [OF a ma(3) ds] sorted_services_of_runtime [OF a ma(4) ds]
    sorted_services_of_runtime [OF a ma(5) ds]
    sorted_services_of_runtime [OF b mb(1) ds] sorted_services_of_runtime [OF b mb(2) ds]
    sorted_services_of_runtime [OF b mb(3) ds] sorted_services_of_runtime [OF b mb(4) ds]
    sorted_services_of_runtime [OF b mb(5) ds]
  have mv: "mset (rangeVolumeNodes rt') = mset (rangeVolumeNodes rt)"
    using a b by (simp add: runtimeOf_def)
  have ev: "mset (rangeVolumeNodes rt) = mset (Volumes project)"
    using a by (simp add: runtimeOf_def)
  have dv0: "distinct (map (\<lambda>entry. orderKey (VolumeOrder project) (fst entry)
                                (volOrder (snd entry))) (Volumes project))"
    using dv by (simp add: volumeKey_def [abs_def])
  have dv': "distinct (map (\<lambda>entry. orderKey (VolumeOrder project) (fst entry)
                                (volOrder (snd entry))) (rangeVolumeNodes rt))"
    by (rule mset_eq_distinct_map [OF ev dv0])
  have V: "sortedVolumes rt' project = sortedVolumes rt project"
    unfolding sortedVolumes_def
    by (rule getSortedVolumes_unique [OF runtimeOf_sort [OF b] runtimeOf_sort [OF a] mv dv'])
  have mn: "mset (rangeNetworkNodes rt') = mset (rangeNetworkNodes rt)"
    using a b by (simp add: runtimeOf_def)
  have en: "mset (rangeNetworkNodes rt) = mset (Networks project)"
    using a by (simp add: runtimeOf_def)
  have dn': "distinct (map fst (rangeNetworkNodes rt))"
    by (rule mset_eq_distinct_map [OF en dn])
  have N: "getSortedNetworks (longSortOf rt') (rangeNetworkNodes rt')
           = getSortedNetworks (longSortOf rt) (rangeNetworkNodes rt)"
    by (rule getSortedNetworks_unique [OF runtimeOf_sort [OF b] runtimeOf_sort [OF a] mn dn'])
  have nn: "\<And>opts d. createNetworkNodes rt' project opts d = createNetworkNodes rt project opts d"
    by (simp add: createNetworkNodes_def N)
  have sn: "\<And>opts d. createServiceNodes rt' project opts d = createServiceNodes rt project opts d"
    by (simp add: createServiceNodes_def S)
  have ne: "\<And>ns m d. createNetworkToServiceEdges rt' project ns m d
              = createNetworkToServiceEdges rt project ns m d"
    by (simp add: createNetworkToServiceEdges_def S)
  have vu: "\<And>ns. collectVolumeUsage rt' project ns = collectVolumeUsage rt project ns"
    by (simp add: collectVolumeUsage_def S)
  have vn: "\<And>opts d u sp. createVolumeNodes rt' project opts d u sp
              = createVolumeNodes rt project opts d u sp"
    by (simp add: createVolumeNodes_def sortedUsedVolumes_def V srt)
  have de: "\<And>m. createDependsOnEdges rt' project m = createDependsOnEdges rt project m"
    by (simp add: createDependsOnEdges_def S)
  have ve: "\<And>ns u. createServiceToVolumeEdges rt' project ns u
              = createServiceToVolumeEdges rt project ns u"
    by (simp add: createServiceToVolumeEdges_def S)
  show ?thesis
    by (simp add: ParseToReactFlow_def nn sn ne vu vn de ve buildFinalGraph_def
        Let_def split: prod.splits)
qed

lemma countedIds_snoc:
  "countedIds prefix edges \<Longrightarrow> edgeID e = prefix @ showInt (int (length edges) + 1) \<Longrightarrow>
   countedIds prefix (edges @ [e])"
  by (simp add: countedIds_def)

lemma dependsEdgesOfService_ids:
  "countedIds ''edge-depends-'' edges \<Longrightarrow> c = int (length edges) \<Longrightarrow>
   countedIds ''edge-depends-'' (fst (dependsEdgesOfService m src deps (edges, c))) \<and>
   snd (dependsEdgesOfService m src deps (edges, c))
     = int (length (fst (dependsEdgesOfService m src deps (edges, c))))"
proof (induction deps arbitrary: edges c)
  case Nil
  then show ?case by simp
next
  case (Cons d deps)
  show ?case
  proof (cases "m d")
    case None
    with Cons show ?thesis by simp
  next
    case (Some t)
    have A: "countedIds ''edge-depends-'' (edges @ [dependsEdge (c + 1) src t])"
      using Cons.prems by (intro countedIds_snoc) (simp_all add: dependsEdge_def)
    have B: "c + 1 = int (length (edges @ [dependsEdge (c + 1) src t]))"
      using Cons.prems by simp
    from Cons.IH [OF A B] Some show ?thesis by simp
  qed
qed

lemma dependsLoop_ids:
  "countedIds ''edge-depends-'' (fst st) \<Longrightarrow> snd st = int (length (fst st)) \<Longrightarrow>
   countedIds ''edge-depends-''
     (fst (foldl (\<lambda>st item.
                    dependsEdgesOfService m (''services-'' @ swName item)
                      (svcDependsOn (service item)) st) st items))"
proof (induction items arbitrary: st)
  case Nil
  then show ?case by simp
next
  case (Cons item items)
  obtain edges c where st: "st = (edges, c)" by (cases st)
  from Cons.prems st
  have "countedIds ''edge-depends-'' edges" "c = int (length edges)" by simp_all
  from dependsEdgesOfService_ids [OF this] Cons.IH show ?case by (simp add: st)
qed

lemma volumeEdgesOfService_ids:
  "countedIds ''edge-services-volume-'' edges \<Longrightarrow> c = int (length edges) \<Longrightarrow>
   countedIds ''edge-services-volume-''
     (fst (volumeEdgesOfService ns vu src mounts (edges, c))) \<and>
   snd (volumeEdgesOfService ns vu src mounts (edges, c))
     = int (length (fst (volumeEdgesOfService ns vu src mounts (edges, c))))"
proof (induction mounts arbitrary: edges c)
  case Nil
  then show ?case by simp
next
  case (Cons mnt mounts)
  show ?case
  proof (cases "mountType mnt = ''volume'' \<and> mountSource mnt \<noteq> [] \<and> volumeExists ns vu mnt")
    case False
    with Cons show ?thesis by auto
  next
    case True
    let ?e = "serviceVolumeEdge (c + 1) src (''volume-'' @ mountSource mnt)"
    have A: "countedIds ''edge-services-volume-'' (edges @ [?e])"
      using Cons.prems by (intro countedIds_snoc) (simp_all add: serviceVolumeEdge_def)
    have B: "c + 1 = int (length (edges @ [?e]))"
      using Cons.prems by simp
    from Cons.IH [OF A B] True show ?thesis by simp
  qed
qed

lemma volumeLoop_ids:
  "countedIds ''edge-services-volume-'' (fst st) \<Longrightarrow> snd st = int (length (fst st)) \<Longrightarrow>
   countedIds ''edge-services-volume-''
     (fst (foldl (\<lambda>st item.
                    volumeEdgesOfService ns vu (''services-'' @ swName item)
                      (svcVolumes (service item)) st) st items))"
proof (induction items arbitrary: st)
  case Nil
  then show ?case by simp
next
  case (Cons item items)
  obtain edges c where st: "st = (edges, c)" by (cases st)
  from Cons.prems st
  have "countedIds ''edge-services-volume-'' edges" "c = int (length edges)" by simp_all
  from volumeEdgesOfService_ids [OF this] Cons.IH show ?case by (simp add: st)
qed

lemma depends_edge_ids: "countedIds ''edge-depends-'' (createDependsOnEdges rt p m)"
  unfolding createDependsOnEdges_def
  by (rule dependsLoop_ids) (simp_all add: countedIds_def)

lemma volume_edge_ids:
  "countedIds ''edge-services-volume-'' (createServiceToVolumeEdges rt p ns vu)"
  unfolding createServiceToVolumeEdges_def
  by (rule volumeLoop_ids) (simp_all add: countedIds_def)

lemma networkPhaseIds_snoc:
  "networkPhaseIds edges \<Longrightarrow> networkPhaseId (length edges) e \<Longrightarrow> networkPhaseIds (edges @ [e])"
  by (simp add: networkPhaseIds_def enumerate_append_eq)

lemma networkEdgesOfService_ids:
  "\<forall>n t. m n = Some t \<longrightarrow> t = ''network-'' @ n \<Longrightarrow>
   networkPhaseIds edges \<Longrightarrow> c = int (length edges) \<Longrightarrow>
   networkPhaseIds (fst (networkEdgesOfService m s nets (edges, c, has))) \<and>
   fst (snd (networkEdgesOfService m s nets (edges, c, has)))
     = int (length (fst (networkEdgesOfService m s nets (edges, c, has))))"
proof (induction nets arbitrary: edges c has)
  case Nil
  then show ?case by simp
next
  case (Cons n nets)
  show ?case
  proof (cases "m n")
    case None
    with Cons show ?thesis by simp
  next
    case (Some t)
    let ?e = "networkServiceEdge n s t (''services-'' @ s)"
    have "t = ''network-'' @ n" using Cons.prems(1) Some by blast
    then have "networkPhaseId (length edges) ?e"
      by (simp add: networkPhaseId_def networkServiceEdge_def)
    then have A: "networkPhaseIds (edges @ [?e])"
      using Cons.prems(2) by (intro networkPhaseIds_snoc)
    have B: "c + 1 = int (length (edges @ [?e]))" using Cons.prems by simp
    from Cons.IH [OF Cons.prems(1) A B] Some show ?thesis by simp
  qed
qed

lemma networkToServiceLoop_ids:
  "\<forall>n t. m n = Some t \<longrightarrow> t = ''network-'' @ n \<Longrightarrow>
   networkPhaseIds edges \<Longrightarrow> c = int (length edges) \<Longrightarrow>
   networkPhaseIds (fst (networkToServiceLoop m items (edges, c)))"
proof (induction items arbitrary: edges c)
  case Nil
  then show ?case by simp
next
  case (Cons item items)
  obtain edges' c' has where
    r: "networkEdgesOfService m (swName item) (svcNetworks (service item)) (edges, c, False)
        = (edges', c', has)"
    by (metis prod_cases3)
  from networkEdgesOfService_ids [OF Cons.prems, of "swName item"
      "svcNetworks (service item)" False]
  have inv: "networkPhaseIds edges'" "c' = int (length edges')" unfolding r by simp_all
  show ?case
  proof (cases has)
    case True
    from Cons.IH [OF Cons.prems(1) inv] r True show ?thesis by simp
  next
    case False
    let ?e = "composeServiceEdge (c' + 1) (''services-'' @ swName item)"
    have "networkPhaseId (length edges') ?e"
      using inv(2) by (simp add: networkPhaseId_def composeServiceEdge_def)
    then have A: "networkPhaseIds (edges' @ [?e])"
      using inv(1) by (intro networkPhaseIds_snoc)
    have B: "c' + 1 = int (length (edges' @ [?e]))" using inv(2) by simp
    from Cons.IH [OF Cons.prems(1) A B] r False show ?thesis by simp
  qed
qed

lemma network_node_ids:
  "snd (createNetworkNodes rt p opts dims) n = Some t \<Longrightarrow> t = ''network-'' @ n"
  using map_of_keyed [of nwName "\<lambda>k. ''network-'' @ k"
      "getSortedNetworks (longSortOf rt) (rangeNetworkNodes rt)" n]
  by (simp add: createNetworkNodes_def Let_def split: if_splits)

lemma network_edge_ids: "networkPhaseIds (layoutNetworkEdges rt project options)"
  unfolding layoutNetworkEdges_def createNetworkToServiceEdges_def
proof (rule networkToServiceLoop_ids)
  show "\<forall>n t. snd (createNetworkNodes rt project (initDefaultOptions options)
                 (layoutDimensions project options)) n = Some t
          \<longrightarrow> t = ''network-'' @ n"
    using network_node_ids by blast
  show "networkPhaseIds []" by (simp add: networkPhaseIds_def)
  show "(0::int) = int (length ([]::ReactFlowEdge list))" by simp
qed

lemma layout_edges:
  "Edges (ParseToReactFlow now rt project options)
   = layoutNetworkEdges rt project options @ layoutDependsEdges rt project options
       @ layoutVolumeEdges rt project options"
  by (simp add: Edges_ParseToReactFlow Let_def layoutNetworkEdges_def layoutDependsEdges_def
      layoutVolumeEdges_def layoutServiceNodes_def layoutVolumeUsage_def layoutDimensions_def)

text \<open>
  C2, as the code has it. When the network names are distinct and the service entries,
  and the volume entries, have pairwise distinct sort keys, two runs of the layout on
  the same project and options give the same output in all but its creation time,
  whatever the order that each enumeration of a map takes in either run. The edges of
  the output are the edges of the network phase, then the dependency edges, then the
  service-to-volume edges. A network edge is identified by the names of its network
  and its service; a fallback edge, a dependency edge and a service-to-volume edge are
  identified by the running counter of their loop.
\<close>

theorem C2_reproducible_for_distinct_sort_keys:
  "(runtimeOf rt project \<and> runtimeOf rt' project \<and> longSortOf rt' = longSortOf rt \<and>
    distinct (map fst (Networks project)) \<and>
    distinct (map (serviceKey project) (Services project)) \<and>
    distinct (map (volumeKey project) (Volumes project)) \<longrightarrow>
      (ParseToReactFlow now' rt' project options)\<lparr>CreatedAt := 0\<rparr>
        = (ParseToReactFlow now rt project options)\<lparr>CreatedAt := 0\<rparr>) \<and>
   Edges (ParseToReactFlow now rt project options)
     = layoutNetworkEdges rt project options @ layoutDependsEdges rt project options
         @ layoutVolumeEdges rt project options \<and>
   networkPhaseIds (layoutNetworkEdges rt project options) \<and>
   countedIds ''edge-depends-'' (layoutDependsEdges rt project options) \<and>
   countedIds ''edge-services-volume-'' (layoutVolumeEdges rt project options)"
  using two_runtimes [of rt project rt' now' options now]
    layout_edges [of now rt project options] network_edge_ids [of rt project options]
    depends_edge_ids volume_edge_ids
  unfolding layoutDependsEdges_def layoutVolumeEdges_def
  by blast

text \<open>
  C2 as stated fails twice. Two services that the comparator does not tell apart are
  laid out in the order in which the map happens to enumerate them, so the same project
  gives two different node lists; and since every enumeration takes its own order, one
  run can place \<open>a\<close> above \<open>b\<close> and still emit the edge of \<open>b\<close> first. And
  the identifier of the dependency edge from \<open>a\<close> to \<open>b\<close> is \<open>edge-depends-1\<close>
  in one project and \<open>edge-depends-2\<close> in another: it is the counter, not a function
  of the two ends and the relation.
\<close>

theorem C2_counterexample:
  "map (\<lambda>n. (nodeID n, posY (Position n)))
       (Nodes (ParseToReactFlow 0 (listedOrder tiedProject) tiedProject None))
     = [(''docker-compose'', 110), (''services-a'', 50), (''services-b'', 170)] \<and>
   map (\<lambda>n. (nodeID n, posY (Position n)))
       (Nodes (ParseToReactFlow 0 (reversedOrder tiedProject) tiedProject None))
     = [(''docker-compose'', 110), (''services-b'', 50), (''services-a'', 170)] \<and>
   map (\<lambda>n. (nodeID n, posY (Position n)))
       (Nodes (ParseToReactFlow 0 (mixedOrder tiedProject) tiedProject None))
     = [(''docker-compose'', 110), (''services-a'', 50), (''services-b'', 170)] \<and>
   map (\<lambda>e. (edgeID e, Source e, Target e))
       (Edges (ParseToReactFlow 0 (mixedOrder tiedProject) tiedProject None))
     = [(''edge-compose-services-1'', ''docker-compose'', ''services-b''),
        (''edge-compose-services-2'', ''docker-compose'', ''services-a'')] \<and>
   map (\<lambda>e. (edgeID e, Source e, Target e))
       (Edges (ParseToReactFlow 0 (listedOrder dependsOneWay) dependsOneWay None))
     = [(''edge-compose-services-1'', ''docker-compose'', ''services-a''),
        (''edge-compose-services-2'', ''docker-compose'', ''services-b''),
        (''edge-depends-1'', ''services-a'', ''services-b'')] \<and>
   map (\<lambda>e. (edgeID e, Source e, Target e))
       (Edges (ParseToReactFlow 0 (listedOrder dependsBothWays) dependsBothWays None))
     = [(''edge-compose-services-1'', ''docker-compose'', ''services-b''),
        (''edge-compose-services-2'', ''docker-compose'', ''services-a''),
        (''edge-depends-1'', ''services-b'', ''services-a''),
        (''edge-depends-2'', ''services-a'', ''services-b'')]"
proof -
  have "map (\<lambda>n. (nodeID n, posY (Position n)))
       (Nodes (ParseToReactFlow 0 (listedOrder tiedProject) tiedProject None))
     = [(''docker-compose'', 110), (''services-a'', 50), (''services-b'', 170)]"
    by code_simp
  moreover have "map (\<lambda>n. (nodeID n, posY (Position n)))
       (Nodes (ParseToReactFlow 0 (reversedOrder tiedProject) tiedProject None))
     = [(''docker-compose'', 110), (''services-b'', 50), (''services-a'', 170)]"
    by code_simp
  moreover have "map (\<lambda>n. (nodeID n, posY (Position n)))
       (Nodes (ParseToReactFlow 0 (mixedOrder tiedProject) tiedProject None))
     = [(''docker-compose'', 110), (''services-a'', 50), (''services-b'', 170)]"
    by code_simp
  moreover have "map (\<lambda>e. (edgeID e, Source e, Target e))
       (Edges (ParseToReactFlow 0 (mixedOrder tiedProject) tiedProject None))
     = [(''edge-compose-services-1'', ''docker-compose'', ''services-b''),
        (''edge-compose-services-2'', ''docker-compose'', ''services-a'')]"
    by code_simp
  moreover have "map (\<lambda>e. (edgeID e, Source e, Target e))
       (Edges (ParseToReactFlow 0 (listedOrder dependsOneWay) dependsOneWay None))
     = [(''edge-compose-services-1'', ''docker-compose'', ''services-a''),
        (''edge-compose-services-2'', ''docker-compose'', ''services-b''),
        (''edge-depends-1'', ''services-a'', ''services-b'')]"
    by code_simp
  moreover have "map (\<lambda>e. (edgeID e, Source e, Target e))
       (Edges (ParseToReactFlow 0 (listedOrder dependsBothWays) dependsBothWays None))
     = [(''edge-compose-services-1'', ''docker-compose'', ''services-b''),
        (''edge-compose-services-2'', ''docker-compose'', ''services-a''),
        (''edge-depends-1'', ''services-b'', ''services-a''),
        (''edge-depends-2'', ''services-a'', ''services-b'')]"
    by code_simp
  ultimately show ?thesis by blast
qed

theorem C2_reproducible_witness:
  "runtimeOf (listedOrder networkProject) networkProject \<and>
   runtimeOf (reversedOrder networkProject) networkProject \<and>
   longSortOf (reversedOrder networkProject) = longSortOf (listedOrder networkProject) \<and>
   rangeServiceNodes (reversedOrder networkProject)
     \<noteq> rangeServiceNodes (listedOrder networkProject) \<and>
   distinct (map fst (Networks networkProject)) \<and>
   distinct (map (serviceKey networkProject) (Services networkProject)) \<and>
   distinct (map (volumeKey networkProject) (Volumes networkProject)) \<and>
   (ParseToReactFlow 1 (reversedOrder networkProject) networkProject None)\<lparr>CreatedAt := 0\<rparr>
     = (ParseToReactFlow 0 (listedOrder networkProject) networkProject None)\<lparr>CreatedAt := 0\<rparr>"
proof -
  have a: "runtimeOf (listedOrder networkProject) networkProject"
    by (rule runtimeOf_listedOrder)
  have b: "runtimeOf (reversedOrder networkProject) networkProject"
    by (rule runtimeOf_reversedOrder)
  have s: "longSortOf (reversedOrder networkProject) = longSortOf (listedOrder networkProject)"
    by (simp add: reversedOrder_def listedOrder_def)
  have r: "rangeServiceNodes (reversedOrder networkProject)
             \<noteq> rangeServiceNodes (listedOrder networkProject)"
    by (simp add: reversedOrder_def listedOrder_def networkProject_def emptyProject_def)
  have dn: "distinct (map fst (Networks networkProject))"
    by (simp add: networkProject_def emptyProject_def)
  have ds: "distinct (map (serviceKey networkProject) (Services networkProject))"
    by (simp add: networkProject_def emptyProject_def serviceKey_def orderKey_def
        webService_def dbService_def emptyService_def)
  have dv: "distinct (map (volumeKey networkProject) (Volumes networkProject))"
    by (simp add: networkProject_def emptyProject_def)
  show ?thesis
    using C2_reproducible_for_distinct_sort_keys
      [of "listedOrder networkProject" networkProject "reversedOrder networkProject" 1 None 0]
      a b s r dn ds dv
    by blast
qed

end
